theory Spec2Isabelle
  imports Main "HOL-Library.Word"
begin

unbundle bit_operations_syntax

section \<open>Machine types\<close>

text \<open>
  The program is C++ for a 64-bit little-endian host: \<open>std::size_t\<close>, \<open>std::uint64_t\<close>
  and \<open>lba\<close> are 64-bit words, \<open>std::byte\<close> and \<open>std::uint8_t\<close> are 8-bit words.
  All arithmetic on them wraps around. A \<open>std::array<T, n>\<close> is a list that is
  serialised as exactly \<open>n\<close> elements; a \<open>std::vector\<close> is a list.
\<close>

type_synonym byte = "8 word"
type_synonym guid = "byte list"
type_synonym lba = "64 word"

subsection \<open>Packed little-endian layout\<close>

text \<open>
  The structures are \<open>__attribute__((packed))\<close> and the host is little-endian (there is a
  \<open>static_assert\<close> on it), so \<open>std::as_bytes\<close> and \<open>std::memcpy\<close> see each integer field
  as its bytes, least significant first, with no padding between fields.
\<close>

definition le16 :: "16 word \<Rightarrow> byte list" where
  "le16 w = [ucast w, ucast (drop_bit 8 w)]"

definition le32 :: "32 word \<Rightarrow> byte list" where
  "le32 w = [ucast w, ucast (drop_bit 8 w), ucast (drop_bit 16 w), ucast (drop_bit 24 w)]"

definition le64 :: "64 word \<Rightarrow> byte list" where
  "le64 w = [ucast w, ucast (drop_bit 8 w), ucast (drop_bit 16 w), ucast (drop_bit 24 w),
             ucast (drop_bit 32 w), ucast (drop_bit 40 w), ucast (drop_bit 48 w),
             ucast (drop_bit 56 w)]"

text \<open>The \<open>n\<close> elements of a \<open>std::array<T, n>\<close>; missing initialisers are value-initialised.\<close>

definition array_of :: "nat \<Rightarrow> 'a \<Rightarrow> 'a list \<Rightarrow> 'a list" where
  "array_of n z xs = take n (xs @ replicate n z)"

section \<open>Data structures of the UEFI specification\<close>

text \<open>Table 20: one partition record of the protective MBR (16 bytes).\<close>

record gpt_protective_mbr_partition_record =
  boot_indicator :: byte
  starting_chs :: "byte list"
  os_type :: byte
  ending_chs :: "byte list"
  starting_lba :: "32 word"
  size_in_lba :: "32 word"

text \<open>Table 19: the protective MBR (512 bytes).\<close>

record gpt_protective_mbr =
  boot_code :: "byte list"
  unique_mbr_disk_signature :: "32 word"
  unknown :: "16 word"
  partition_record :: "gpt_protective_mbr_partition_record list"
  signature :: "byte list"

text \<open>Table 21: the GPT header (92 bytes).\<close>

record gpt_header =
  signature :: "byte list"
  revision :: "byte list"
  header_size :: "32 word"
  header_crc32 :: "32 word"
  reserved :: "32 word"
  my_lba :: lba
  alternate_lba :: lba
  first_usable_lba :: lba
  last_usable_lba :: lba
  disk_guid :: guid
  partition_entry_lba :: lba
  number_of_partition_entries :: "32 word"
  size_of_partition_entry :: "32 word"
  partition_entry_checksum :: "32 word"

text \<open>Table 22: a partition entry (128 bytes).\<close>

record gpt_partition_entry =
  partition_type_guid :: guid
  unique_partition_guid :: guid
  starting_lba :: lba
  ending_lba :: lba
  attributes :: "64 word"
  partition_name :: "16 word list"

record gpt_descriptor =
  block_size :: "64 word"
  number_of_blocks :: "64 word"
  disk_guid :: guid
  partitions :: "gpt_partition_entry list"

record gpt_data =
  header :: "byte list"
  footer :: "byte list"

subsection \<open>The bytes of each structure\<close>

definition partition_record_bytes :: "gpt_protective_mbr_partition_record \<Rightarrow> byte list" where
  "partition_record_bytes r =
     [boot_indicator r] @ array_of 3 0 (starting_chs r) @ [os_type r]
     @ array_of 3 0 (ending_chs r)
     @ le32 (gpt_protective_mbr_partition_record.starting_lba r) @ le32 (size_in_lba r)"

definition zero_partition_record :: gpt_protective_mbr_partition_record where
  "zero_partition_record =
     \<lparr> boot_indicator = 0, starting_chs = [], os_type = 0, ending_chs = [],
       gpt_protective_mbr_partition_record.starting_lba = 0, size_in_lba = 0 \<rparr>"

definition gpt_protective_mbr_bytes :: "gpt_protective_mbr \<Rightarrow> byte list" where
  "gpt_protective_mbr_bytes m =
     array_of 440 0 (boot_code m) @ le32 (unique_mbr_disk_signature m) @ le16 (unknown m)
     @ concat (map partition_record_bytes (array_of 4 zero_partition_record (partition_record m)))
     @ array_of 2 0 (gpt_protective_mbr.signature m)"

definition gpt_header_bytes :: "gpt_header \<Rightarrow> byte list" where
  "gpt_header_bytes h =
     array_of 8 0 (gpt_header.signature h) @ array_of 4 0 (revision h)
     @ le32 (header_size h) @ le32 (header_crc32 h) @ le32 (reserved h)
     @ le64 (my_lba h) @ le64 (alternate_lba h)
     @ le64 (first_usable_lba h) @ le64 (last_usable_lba h)
     @ array_of 16 0 (gpt_header.disk_guid h) @ le64 (partition_entry_lba h)
     @ le32 (number_of_partition_entries h) @ le32 (size_of_partition_entry h)
     @ le32 (partition_entry_checksum h)"

definition gpt_partition_entry_bytes :: "gpt_partition_entry \<Rightarrow> byte list" where
  "gpt_partition_entry_bytes e =
     array_of 16 0 (partition_type_guid e) @ array_of 16 0 (unique_partition_guid e)
     @ le64 (starting_lba e) @ le64 (ending_lba e) @ le64 (attributes e)
     @ concat (map le16 (array_of 36 0 (partition_name e)))"

section \<open>Utilities: crc32\<close>

text \<open>
  The inner loop of \<open>crc32\<close>: \<open>for (bit = 0; bit < 8; bit++, byte >>= 1)\<close>, counted by the
  number of iterations that remain.
\<close>

fun crc32_bits :: "nat \<Rightarrow> byte \<Rightarrow> 32 word \<Rightarrow> 32 word" where
  "crc32_bits 0 byte crc = crc"
| "crc32_bits (Suc n) byte crc =
     (let b = (ucast byte XOR crc) AND 1;
          crc1 = drop_bit 1 crc;
          crc2 = (if b \<noteq> 0 then crc1 XOR 0xEDB88320 else crc1)
      in crc32_bits n (drop_bit 1 byte) crc2)"

definition crc32 :: "byte list \<Rightarrow> 32 word" where
  "crc32 data = NOT (fold (crc32_bits 8) data 0xffffffff)"

text \<open>
  The reflected CRC-32 as its description reads: the message is a stream of bits, each byte
  least significant bit first; the accumulator starts at \<open>0xFFFFFFFF\<close>; for every message bit
  the accumulator is shifted right by one and the polynomial \<open>0xEDB88320\<close> is added (XOR)
  when the bit shifted out differs from the message bit; the result is the inverted
  accumulator.
\<close>

definition bits_lsb_first :: "byte \<Rightarrow> bool list" where
  "bits_lsb_first byte = map (bit byte) [0..<8]"

definition crc32_shift :: "32 word \<Rightarrow> bool \<Rightarrow> 32 word" where
  "crc32_shift acc msg_bit =
     (if bit acc 0 \<noteq> msg_bit then drop_bit 1 acc XOR 0xEDB88320 else drop_bit 1 acc)"

definition crc32_reflected :: "byte list \<Rightarrow> 32 word" where
  "crc32_reflected data = NOT (foldl crc32_shift 0xFFFFFFFF (concat (map bits_lsb_first data)))"

text \<open>A string literal as bytes, for the test vector and the header signature.\<close>

definition ascii :: "string \<Rightarrow> byte list" where
  "ascii s = map (\<lambda>c. of_nat (of_char c)) s"

section \<open>Main algorithm: make_gpt\<close>

text \<open>
  What \<open>make_gpt\<close> can end with instead of returning: the \<open>std::invalid_argument\<close> it
  throws with its message; the \<open>std::length_error\<close> of \<open>std::vector\<close>'s constructor for a
  size above \<open>max_size()\<close>; and a \<open>std::memcpy\<close> that would write outside the vector it
  targets, which is undefined behaviour and so never counts as a returned result. Memory
  is not bounded otherwise: there is no \<open>std::bad_alloc\<close>.
\<close>

datatype error = Invalid_Argument string | Length_Error | Undefined_Behaviour

text \<open>\<open>std::vector<std::byte>::max_size()\<close> on a 64-bit host is \<open>PTRDIFF_MAX\<close>.\<close>

definition vector_max_size :: nat where
  "vector_max_size = 2 ^ 63 - 1"

text \<open>\<open>std::vector<std::byte>(n)\<close>: \<open>n\<close> value-initialised (zero) bytes.\<close>

definition new_vector :: "64 word \<Rightarrow> error + byte list" where
  "new_vector n =
     (if unat n > vector_max_size then Inl Length_Error else Inr (replicate (unat n) 0))"

text \<open>The bytes of \<open>dst\<close> after \<open>src\<close> has been copied over them from index \<open>off\<close> on.\<close>

definition overwrite :: "byte list \<Rightarrow> nat \<Rightarrow> byte list \<Rightarrow> byte list" where
  "overwrite dst off src = take off dst @ src @ drop (off + length src) dst"

text \<open>\<open>std::memcpy(dst.data() + off, src, sizeof src)\<close> into a vector.\<close>

definition memcpy :: "byte list \<Rightarrow> 64 word \<Rightarrow> byte list \<Rightarrow> error + byte list" where
  "memcpy dst off src =
     (if unat off + length src \<le> length dst
      then Inr (overwrite dst (unat off) src)
      else Inl Undefined_Behaviour)"

subsection \<open>Derived quantities\<close>

text \<open>\<open>std::as_bytes(partition_span)\<close>: the partition entries, one after the other.\<close>

definition partition_span :: "gpt_descriptor \<Rightarrow> byte list" where
  "partition_span descriptor = concat (map gpt_partition_entry_bytes (partitions descriptor))"

text \<open>\<open>partition_span.size_bytes()\<close>, a \<open>std::size_t\<close>.\<close>

definition size_bytes :: "gpt_descriptor \<Rightarrow> 64 word" where
  "size_bytes descriptor = of_nat (128 * length (partitions descriptor))"

definition partition_entry_blocks :: "gpt_descriptor \<Rightarrow> 64 word" where
  "partition_entry_blocks descriptor =
     (size_bytes descriptor + (block_size descriptor - 1)) div block_size descriptor"

definition gpt_blocks :: "gpt_descriptor \<Rightarrow> 64 word" where
  "gpt_blocks descriptor = 3 + (partition_entry_blocks descriptor * 2)"

text \<open>The locals \<open>first_usable_lba\<close> and \<open>last_usable_lba\<close> of \<open>make_gpt\<close>.\<close>

definition first_usable_lba_of :: "gpt_descriptor \<Rightarrow> lba" where
  "first_usable_lba_of descriptor = 2 + partition_entry_blocks descriptor"

definition last_usable_lba_of :: "gpt_descriptor \<Rightarrow> lba" where
  "last_usable_lba_of descriptor =
     number_of_blocks descriptor - partition_entry_blocks descriptor - 2"

subsection \<open>Validation of the partitions\<close>

text \<open>The inner loop over \<open>j\<close>, from \<open>i + 1\<close> to the end: does \<open>i\<close> hit one of them?\<close>

fun overlapping :: "gpt_partition_entry \<Rightarrow> gpt_partition_entry list \<Rightarrow> bool" where
  "overlapping i [] = False"
| "overlapping i (j # js) =
     (if (starting_lba i \<ge> starting_lba j \<and> starting_lba i \<le> ending_lba j) \<or>
         (ending_lba i \<ge> starting_lba j \<and> ending_lba i \<le> ending_lba j)
      then True
      else overlapping i js)"

text \<open>The outer loop over \<open>i\<close>; \<open>Some\<close> is the exception thrown.\<close>

fun check_partitions :: "lba \<Rightarrow> lba \<Rightarrow> gpt_partition_entry list \<Rightarrow> error option" where
  "check_partitions first_usable last_usable [] = None"
| "check_partitions first_usable last_usable (i # rest) =
     (if starting_lba i < first_usable
      then Some (Invalid_Argument ''Starting LBA less than first usable LBA!'')
      else if ending_lba i > last_usable
      then Some (Invalid_Argument ''Ending LBA greater than last usable LBA!'')
      else if starting_lba i > ending_lba i
      then Some (Invalid_Argument ''Starting LBA is greater than ending LBA!'')
      else if overlapping i rest
      then Some (Invalid_Argument ''Overlapping partitions!'')
      else check_partitions first_usable last_usable rest)"

subsection \<open>The structures that are written\<close>

definition partition_entry_checksum_of :: "gpt_descriptor \<Rightarrow> 32 word" where
  "partition_entry_checksum_of descriptor = crc32 (partition_span descriptor)"

definition mbr_header :: "gpt_descriptor \<Rightarrow> gpt_protective_mbr" where
  "mbr_header descriptor =
     \<lparr> boot_code = [],
       unique_mbr_disk_signature = 0,
       unknown = 0,
       partition_record =
         [\<lparr> boot_indicator = 0,
            starting_chs = [0x00, 0x02, 0x00],
            os_type = 0xee,
            ending_chs = [0xff, 0xff, 0xff],
            gpt_protective_mbr_partition_record.starting_lba = 1,
            size_in_lba =
              (if number_of_blocks descriptor > 0xFFFFFFFF
               then 0xfffffff
               else ucast (number_of_blocks descriptor - 1)) \<rparr>,
          zero_partition_record, zero_partition_record, zero_partition_record],
       gpt_protective_mbr.signature = [0x55, 0xaa] \<rparr>"

text \<open>A header as its initialiser builds it, and then with its own checksum stored.\<close>

definition with_header_crc32 :: "gpt_header \<Rightarrow> gpt_header" where
  "with_header_crc32 h = h\<lparr>header_crc32 := crc32 (gpt_header_bytes h)\<rparr>"

definition first_gpt_header :: "gpt_descriptor \<Rightarrow> gpt_header" where
  "first_gpt_header descriptor =
     with_header_crc32
       \<lparr> gpt_header.signature = ascii ''EFI PART'',
         revision = [0, 0, 1, 0],
         header_size = 92,
         header_crc32 = 0,
         reserved = 0,
         my_lba = 1,
         alternate_lba = number_of_blocks descriptor - 1,
         first_usable_lba = first_usable_lba_of descriptor,
         last_usable_lba = last_usable_lba_of descriptor,
         gpt_header.disk_guid = gpt_descriptor.disk_guid descriptor,
         partition_entry_lba = 2,
         number_of_partition_entries = of_nat (length (partitions descriptor)),
         size_of_partition_entry = 128,
         partition_entry_checksum = partition_entry_checksum_of descriptor \<rparr>"

definition second_gpt_header :: "gpt_descriptor \<Rightarrow> gpt_header" where
  "second_gpt_header descriptor =
     with_header_crc32
       \<lparr> gpt_header.signature = ascii ''EFI PART'',
         revision = [0, 0, 1, 0],
         header_size = 92,
         header_crc32 = 0,
         reserved = 0,
         my_lba = number_of_blocks descriptor - 1,
         alternate_lba = 1,
         first_usable_lba = 2 + partition_entry_blocks descriptor,
         last_usable_lba =
           number_of_blocks descriptor - partition_entry_blocks descriptor - 2,
         gpt_header.disk_guid = gpt_descriptor.disk_guid descriptor,
         partition_entry_lba =
           number_of_blocks descriptor - 1 - partition_entry_blocks descriptor,
         number_of_partition_entries = of_nat (length (partitions descriptor)),
         size_of_partition_entry = 128,
         partition_entry_checksum = partition_entry_checksum_of descriptor \<rparr>"

subsection \<open>The buffers\<close>

text \<open>
  The two vectors are allocated, header first, and filled by five \<open>memcpy\<close> calls in the
  order of the source, each at the offset the source computes.
\<close>

definition construct_buffers :: "gpt_descriptor \<Rightarrow> error + gpt_data" where
  "construct_buffers descriptor =
     (case new_vector ((2 + partition_entry_blocks descriptor) * block_size descriptor) of
        Inl e \<Rightarrow> Inl e
      | Inr header0 \<Rightarrow>
     (case new_vector ((1 + partition_entry_blocks descriptor) * block_size descriptor) of
        Inl e \<Rightarrow> Inl e
      | Inr footer0 \<Rightarrow>
     (case memcpy header0 (0 * block_size descriptor)
             (gpt_protective_mbr_bytes (mbr_header descriptor)) of
        Inl e \<Rightarrow> Inl e
      | Inr header1 \<Rightarrow>
     (case memcpy header1 (1 * block_size descriptor)
             (gpt_header_bytes (first_gpt_header descriptor)) of
        Inl e \<Rightarrow> Inl e
      | Inr header2 \<Rightarrow>
     (case memcpy header2 (2 * block_size descriptor) (partition_span descriptor) of
        Inl e \<Rightarrow> Inl e
      | Inr header3 \<Rightarrow>
     (case memcpy footer0 (0 * block_size descriptor) (partition_span descriptor) of
        Inl e \<Rightarrow> Inl e
      | Inr footer1 \<Rightarrow>
     (case memcpy footer1 (1 * block_size descriptor)
             (gpt_header_bytes (second_gpt_header descriptor)) of
        Inl e \<Rightarrow> Inl e
      | Inr footer2 \<Rightarrow> Inr \<lparr> header = header3, footer = footer2 \<rparr>)))))))"

subsection \<open>make_gpt\<close>

definition make_gpt :: "gpt_descriptor \<Rightarrow> error + gpt_data" where
  "make_gpt descriptor =
     (if block_size descriptor = 0 \<or> block_size descriptor mod 512 \<noteq> 0
      then Inl (Invalid_Argument ''Block size must be a non-zero multiple of 512!'')
      else if partitions descriptor = []
      then Inl (Invalid_Argument ''Must provide at least one partition!'')
      else if length (partitions descriptor) > 4294967295
      then Inl (Invalid_Argument ''Too many partitions! (Like, waaaaaaay too many)'')
      else if number_of_blocks descriptor < gpt_blocks descriptor + 1
      then Inl (Invalid_Argument ''Number of blocks too small!'')
      else
        (case check_partitions (first_usable_lba_of descriptor) (last_usable_lba_of descriptor)
                (partitions descriptor) of
           Some e \<Rightarrow> Inl e
         | None \<Rightarrow> construct_buffers descriptor))"

section \<open>Example descriptors\<close>

text \<open>A disk and a partition with all-zero identifiers, empty name and no attributes.\<close>

definition zero_guid :: guid where
  "zero_guid = replicate 16 0"

definition blank_partition :: "lba \<Rightarrow> lba \<Rightarrow> gpt_partition_entry" where
  "blank_partition first_block last_block =
     \<lparr> partition_type_guid = zero_guid, unique_partition_guid = zero_guid,
       starting_lba = first_block, ending_lba = last_block, attributes = 0,
       partition_name = [] \<rparr>"

definition blank_disk :: "64 word \<Rightarrow> 64 word \<Rightarrow> gpt_partition_entry list \<Rightarrow> gpt_descriptor" where
  "blank_disk bs nb ps =
     \<lparr> block_size = bs, number_of_blocks = nb, gpt_descriptor.disk_guid = zero_guid,
       partitions = ps \<rparr>"

text \<open>Scenario A: 2048 blocks of 512 bytes and one partition from block 34 to 2014.\<close>

definition scenario_A :: gpt_descriptor where
  "scenario_A = blank_disk 512 2048 [blank_partition 34 2014]"

text \<open>4096 blocks of 512 bytes; the second partition lies strictly inside the first.\<close>

definition nested_partitions :: gpt_descriptor where
  "nested_partitions = blank_disk 512 4096 [blank_partition 100 300, blank_partition 150 200]"

text \<open>A disk of exactly \<open>2 ^ 32\<close> blocks of 512 bytes.\<close>

definition disk_of_2_to_32_blocks :: gpt_descriptor where
  "disk_of_2_to_32_blocks = blank_disk 512 4294967296 [blank_partition 3 3]"

text \<open>
  2048 blocks of 512 bytes and five partitions: the partition array has 640 bytes and
  takes two blocks.
\<close>

definition five_partitions :: gpt_descriptor where
  "five_partitions =
     blank_disk 512 2048
       [blank_partition 10 19, blank_partition 20 29, blank_partition 30 39,
        blank_partition 40 49, blank_partition 50 59]"

text \<open>
  Eight blocks of \<open>2 ^ 64 - 512\<close> bytes and five partitions of one block each, from block 2
  to block 6: the sum \<open>640 + (block_size - 1)\<close> is \<open>2 ^ 64 + 127\<close>.
\<close>

definition wrapped_ceiling :: gpt_descriptor where
  "wrapped_ceiling =
     blank_disk 18446744073709551104 8
       [blank_partition 2 2, blank_partition 3 3, blank_partition 4 4,
        blank_partition 5 5, blank_partition 6 6]"

section \<open>Checks on the output\<close>

text \<open>
  The round trip of a header checksum on 92 bytes: zero bytes 16 to 19 (the
  \<open>header_crc32\<close> field), take the CRC-32, and compare with what was stored there.
\<close>

definition header_crc32_checks :: "byte list \<Rightarrow> bool" where
  "header_crc32_checks hb =
     (length hb = 92 \<and>
      take 4 (drop 16 hb) = le32 (crc32 (take 16 hb @ replicate 4 0 @ drop 20 hb)))"

text \<open>The result is the \<open>std::invalid_argument\<close> exception (InvalidDescriptor).\<close>

definition invalid_descriptor :: "error + gpt_data \<Rightarrow> bool" where
  "invalid_descriptor r = (case r of Inl (Invalid_Argument message) \<Rightarrow> True | _ \<Rightarrow> False)"

text \<open>Two partitions have no block in common (both ends are inclusive).\<close>

definition disjoint_ranges :: "gpt_partition_entry \<Rightarrow> gpt_partition_entry \<Rightarrow> bool" where
  "disjoint_ranges p q = (ending_lba p < starting_lba q \<or> ending_lba q < starting_lba p)"

section \<open>Properties of crc32\<close>

lemma crc32_feedback_bit:
  "((ucast (byte :: byte) XOR (crc :: 32 word)) AND 1 \<noteq> 0) = (bit crc 0 \<noteq> bit byte 0)"
proof -
  have "(ucast byte XOR crc) AND 1 = of_bool (bit (ucast byte XOR crc :: 32 word) 0)"
    by (simp add: and_one_eq mod2_eq_if bit_0 of_bool_def)
  then show ?thesis
    by (auto simp add: bit_simps)
qed

lemma map_bit_Suc:
  "map (bit (byte :: byte)) [0..<Suc n] = bit byte 0 # map (bit (drop_bit 1 byte)) [0..<n]"
proof -
  have "[0..<Suc n] = 0 # map Suc [0..<n]"
    by (simp add: upt_conv_Cons map_Suc_upt del: upt_Suc)
  then show ?thesis
    by (simp add: bit_simps comp_def del: upt_Suc)
qed

lemma crc32_bits_foldl:
  "crc32_bits n byte crc = foldl crc32_shift crc (map (bit byte) [0..<n])"
proof (induction n arbitrary: byte crc)
  case 0
  show ?case by simp
next
  case (Suc n)
  have "crc32_bits (Suc n) byte crc = crc32_bits n (drop_bit 1 byte) (crc32_shift crc (bit byte 0))"
    by (simp add: Let_def crc32_shift_def crc32_feedback_bit)
  also have "\<dots> = foldl crc32_shift (crc32_shift crc (bit byte 0)) (map (bit (drop_bit 1 byte)) [0..<n])"
    by (rule Suc.IH)
  also have "\<dots> = foldl crc32_shift crc (map (bit byte) [0..<Suc n])"
    by (simp only: map_bit_Suc foldl_Cons)
  finally show ?case .
qed

lemma fold_crc32_bits:
  "fold (crc32_bits 8) data crc = foldl crc32_shift crc (concat (map bits_lsb_first data))"
  by (induction data arbitrary: crc) (simp_all add: crc32_bits_foldl bits_lsb_first_def)

lemma crc32_bits_step:
  "crc32_bits (Suc n) byte crc = crc32_bits n (drop_bit 1 byte) (crc32_shift crc (bit byte 0))"
  by (simp add: Let_def crc32_shift_def crc32_feedback_bit)

lemma crc32_bits_8:
  "crc32_bits 8 b c =
     crc32_shift (crc32_shift (crc32_shift (crc32_shift (crc32_shift (crc32_shift
       (crc32_shift (crc32_shift c (bit b 0)) (bit b 1)) (bit b 2)) (bit b 3)) (bit b 4))
       (bit b 5)) (bit b 6)) (bit b 7)"
proof -
  have e: "Suc (Suc (Suc (Suc (Suc (Suc (Suc (Suc 0))))))) = 8" by simp
  have "crc32_bits (Suc (Suc (Suc (Suc (Suc (Suc (Suc (Suc 0)))))))) b c =
     crc32_shift (crc32_shift (crc32_shift (crc32_shift (crc32_shift (crc32_shift
       (crc32_shift (crc32_shift c (bit b 0)) (bit b 1)) (bit b 2)) (bit b 3)) (bit b 4))
       (bit b 5)) (bit b 6)) (bit b 7)"
    by (simp add: crc32_bits_step bit_simps eval_nat_numeral del: crc32_bits.simps(2))
  then show ?thesis unfolding e .
qed

lemma crc32_check_vector:
  "crc32 [0x31, 0x32, 0x33, 0x34, 0x35, 0x36, 0x37, 0x38, 0x39] = 0xCBF43926"
  by (simp add: crc32_def crc32_bits_8 crc32_shift_def)

lemma crc32_check_vector_ascii: "crc32 (ascii ''123456789'') = 0xCBF43926"
  using crc32_check_vector by (simp add: ascii_def)

text \<open>
  Claim C9. \<open>crc32\<close> is the reflected CRC-32: polynomial \<open>0xEDB88320\<close>, accumulator
  started at \<open>0xFFFFFFFF\<close>, every byte taken least significant bit first, accumulator
  inverted at the end; and the nine ASCII bytes \<open>123456789\<close> give \<open>0xCBF43926\<close>.
\<close>

theorem crc32_is_reflected_crc32:
  "crc32 data = crc32_reflected data \<and> crc32 (ascii ''123456789'') = 0xCBF43926"
  using crc32_check_vector_ascii
  by (simp add: crc32_def crc32_reflected_def fold_crc32_bits)

section \<open>Sizes of the serialised structures\<close>

lemma length_array_of [simp]: "length (array_of n z xs) = n"
  by (simp add: array_of_def)

lemma length_le16 [simp]: "length (le16 w) = 2" by (simp add: le16_def)
lemma length_le32 [simp]: "length (le32 w) = 4" by (simp add: le32_def)
lemma length_le64 [simp]: "length (le64 w) = 8" by (simp add: le64_def)

lemma length_concat_const:
  "(\<And>x. x \<in> set xs \<Longrightarrow> length (f x) = k) \<Longrightarrow> length (concat (map f xs)) = k * length xs"
  by (induction xs) simp_all

lemma length_partition_record_bytes [simp]: "length (partition_record_bytes r) = 16"
  by (simp add: partition_record_bytes_def)

lemma length_gpt_protective_mbr_bytes [simp]: "length (gpt_protective_mbr_bytes m) = 512"
  by (simp add: gpt_protective_mbr_bytes_def length_concat_const [where k = 16])

lemma length_gpt_header_bytes [simp]: "length (gpt_header_bytes h) = 92"
  by (simp add: gpt_header_bytes_def)

lemma length_gpt_partition_entry_bytes [simp]: "length (gpt_partition_entry_bytes e) = 128"
  by (simp add: gpt_partition_entry_bytes_def length_concat_const [where k = 2])

lemma length_partition_span [simp]:
  "length (partition_span d) = 128 * length (partitions d)"
  by (simp add: partition_span_def length_concat_const [where k = 128])

section \<open>Copies into a buffer\<close>

lemma length_overwrite:
  "off + length src \<le> length dst \<Longrightarrow> length (overwrite dst off src) = length dst"
  by (simp add: overwrite_def)

lemma overwrite_read_same:
  "off + length src \<le> length dst \<Longrightarrow> take (length src) (drop off (overwrite dst off src)) = src"
  by (simp add: overwrite_def)

lemma overwrite_read_before:
  "k + n \<le> off \<Longrightarrow> off + length src \<le> length dst \<Longrightarrow>
   take n (drop k (overwrite dst off src)) = take n (drop k dst)"
proof -
  assume kn: "k + n \<le> off" and fit: "off + length src \<le> length dst"
  have "take n (drop k (overwrite dst off src)) = take n (drop k (take off dst))"
    using kn fit by (simp add: overwrite_def)
  also have "\<dots> = take n (take (off - k) (drop k dst))"
    by (simp add: drop_take)
  also have "\<dots> = take n (drop k dst)"
    using kn by (simp add: min_def)
  finally show ?thesis .
qed

lemma overwrite_read_after:
  "off + length src \<le> k \<Longrightarrow> off + length src \<le> length dst \<Longrightarrow>
   take n (drop k (overwrite dst off src)) = take n (drop k dst)"
  by (simp add: overwrite_def)

lemma memcpy_Inr:
  "memcpy dst off src = Inr r \<longleftrightarrow>
     unat off + length src \<le> length dst \<and> r = overwrite dst (unat off) src"
  by (auto simp add: memcpy_def)

lemma new_vector_Inr:
  "new_vector n = Inr r \<longleftrightarrow> unat n \<le> vector_max_size \<and> r = replicate (unat n) 0"
  by (auto simp add: new_vector_def)

text \<open>What a returned result says about the run.\<close>

lemma construct_buffers_Inr:
  assumes "construct_buffers d = Inr out"
  shows "unat ((2 + partition_entry_blocks d) * block_size d) \<le> vector_max_size"
    and "unat ((1 + partition_entry_blocks d) * block_size d) \<le> vector_max_size"
    and "unat (block_size d) + 92 \<le> unat ((2 + partition_entry_blocks d) * block_size d)"
    and "unat (2 * block_size d) + 128 * length (partitions d)
           \<le> unat ((2 + partition_entry_blocks d) * block_size d)"
    and "unat (block_size d) + 92 \<le> unat ((1 + partition_entry_blocks d) * block_size d)"
    and "header out =
           overwrite (overwrite (overwrite
             (replicate (unat ((2 + partition_entry_blocks d) * block_size d)) 0)
             0 (gpt_protective_mbr_bytes (mbr_header d)))
             (unat (block_size d)) (gpt_header_bytes (first_gpt_header d)))
             (unat (2 * block_size d)) (partition_span d)"
    and "footer out =
           overwrite (overwrite
             (replicate (unat ((1 + partition_entry_blocks d) * block_size d)) 0)
             0 (partition_span d))
             (unat (block_size d)) (gpt_header_bytes (second_gpt_header d))"
  using assms
  by (auto simp add: construct_buffers_def new_vector_Inr memcpy_Inr length_overwrite
      split: sum.splits)

lemma make_gpt_Inr:
  assumes "make_gpt d = Inr out"
  shows "block_size d \<noteq> 0" and "block_size d mod 512 = 0"
    and "partitions d \<noteq> []" and "length (partitions d) \<le> 4294967295"
    and "gpt_blocks d + 1 \<le> number_of_blocks d"
    and "check_partitions (first_usable_lba_of d) (last_usable_lba_of d) (partitions d) = None"
    and "construct_buffers d = Inr out"
  using assms
  by (auto simp add: make_gpt_def split: if_splits option.splits)

section \<open>Geometry of a returned run\<close>

text \<open>The ceiling of a quotient, as the source computes it.\<close>

lemma ceiling_div_upper: "0 < (b::nat) \<Longrightarrow> (a + (b - 1)) div b * b \<le> a + (b - 1)"
  by simp

lemma ceiling_div_lower:
  assumes "0 < (b::nat)"
  shows "a \<le> (a + (b - 1)) div b * b"
proof -
  have "a + (b - 1) = (a + (b - 1)) div b * b + (a + (b - 1)) mod b"
    by simp
  moreover have "(a + (b - 1)) mod b \<le> b - 1"
    using assms by (metis Suc_pred' less_Suc_eq_le mod_less_divisor)
  ultimately show ?thesis by linarith
qed

lemma block_size_bounds:
  assumes "block_size d \<noteq> 0" and "block_size d mod 512 = 0"
  shows "512 \<le> unat (block_size d)" and "unat (block_size d) mod 512 = 0"
proof -
  have "unat (block_size d mod 512) = unat (block_size d) mod unat (512 :: 64 word)"
    by (rule unat_mod)
  then show m: "unat (block_size d) mod 512 = 0"
    using assms(2) by simp
  then have "512 dvd unat (block_size d)"
    by (simp add: mod_eq_0_iff_dvd)
  moreover have "0 < unat (block_size d)"
    using assms(1) by (simp add: unat_gt_0)
  ultimately show "512 \<le> unat (block_size d)"
    by (rule dvd_imp_le)
qed

lemma unat_size_bytes:
  "length (partitions d) \<le> 4294967295 \<Longrightarrow> unat (size_bytes d) = 128 * length (partitions d)"
  by (simp only: size_bytes_def unat_of_nat) simp


text \<open>
  No computation of a returned run wraps around: the copy of the header into each
  vector is within it, and the vectors are below \<open>max_size()\<close>.
\<close>

lemma accepted_no_wrap:
  assumes acc: "make_gpt d = Inr out"
  defines "B \<equiv> unat (block_size d)"
    and "S \<equiv> 128 * length (partitions d)"
    and "P \<equiv> unat (partition_entry_blocks d)"
  shows "512 \<le> B" and "B mod 512 = 0" and "B < 2 ^ 63"
    and "128 \<le> S" and "S < 2 ^ 39"
    and "P = (S + (B - 1)) div B" and "1 \<le> P"
    and "unat ((2 + partition_entry_blocks d) * block_size d) = (2 + P) * B"
    and "unat ((1 + partition_entry_blocks d) * block_size d) = (1 + P) * B"
    and "unat (2 * block_size d) = 2 * B"
    and "(2 + P) * B < 2 ^ 63"
proof -
  note v = make_gpt_Inr [OF acc]
  note c = construct_buffers_Inr [OF v(7)]
  show B512: "512 \<le> B" and Bmod: "B mod 512 = 0"
    using block_size_bounds [OF v(1) v(2)] by (simp_all add: B_def)
  have N: "1 \<le> length (partitions d)" "length (partitions d) \<le> 4294967295"
    using v(3,4) by (simp_all add: Suc_le_eq)
  show S128: "128 \<le> S" and S39: "S < 2 ^ 39"
    using N by (simp_all add: S_def)
  have H63: "unat ((2 + partition_entry_blocks d) * block_size d) < 2 ^ 63"
    using c(1) by (simp add: vector_max_size_def)
  show B63: "B < 2 ^ 63"
    using c(3) H63 by (simp add: B_def)
  have Bm1: "unat (block_size d - 1) = B - 1"
    using v(1) by (simp add: unat_minus_one B_def)
  have "unat (size_bytes d + (block_size d - 1)) = (S + (B - 1)) mod 2 ^ 64"
    using N(2) by (simp add: unat_word_ariths unat_size_bytes Bm1 S_def)
  also have "\<dots> = S + (B - 1)"
    using S39 B63 by simp
  finally have sum: "unat (size_bytes d + (block_size d - 1)) = S + (B - 1)" .
  show Pdef: "P = (S + (B - 1)) div B"
    by (simp add: P_def partition_entry_blocks_def unat_div sum B_def)
  have Bpos: "0 < B" using B512 by simp
  have up: "P * B \<le> S + (B - 1)"
    unfolding Pdef by (rule ceiling_div_upper [OF Bpos])
  have lo: "S \<le> P * B"
    unfolding Pdef by (rule ceiling_div_lower [OF Bpos])
  show P1: "1 \<le> P"
  proof (rule ccontr)
    assume "\<not> 1 \<le> P"
    then have "P = 0" by simp
    with lo S128 show False by simp
  qed
  have Psmall: "P < 2 ^ 63"
  proof -
    have "P * 512 \<le> P * B" using B512 by (intro mult_le_mono2)
    moreover have "S < 549755813888" "B < 9223372036854775808"
      using S39 B63 by simp_all
    ultimately have "P < 9223372036854775808"
      using up by linarith
    then show ?thesis by simp
  qed
  have u1: "unat (1 + partition_entry_blocks d) = 1 + P"
    using Psmall by (simp add: unat_word_ariths P_def)
  have u2: "unat (2 + partition_entry_blocks d) = 2 + P"
    using Psmall by (simp add: unat_word_ariths P_def)
  have F: "unat ((1 + partition_entry_blocks d) * block_size d) = ((1 + P) * B) mod 2 ^ 64"
    by (simp only: unat_word_ariths(2) u1 B_def) simp
  have H: "unat ((2 + partition_entry_blocks d) * block_size d) = ((2 + P) * B) mod 2 ^ 64"
    by (simp only: unat_word_ariths(2) u2 B_def) simp
  have small: "(2 + P) * B < 2 ^ 64"
  proof (cases "P = 1")
    case True
    show ?thesis
    proof (rule ccontr)
      assume "\<not> (2 + P) * B < 2 ^ 64"
      then have big: "2 ^ 64 \<le> 3 * B" using True by (simp add: numeral_3_eq_3)
      have "(3 * B) mod 2 ^ 64 = (3 * B - 2 ^ 64) mod 2 ^ 64"
        using big by (simp add: le_mod_geq)
      also have "\<dots> = 3 * B - 2 ^ 64"
        using B63 by simp
      finally have "unat ((2 + partition_entry_blocks d) * block_size d) = 3 * B - 2 ^ 64"
        using H True by (simp add: numeral_3_eq_3)
      with c(3) B63 show False by (simp add: B_def)
    qed
  next
    case False
    with P1 have "2 \<le> P" by simp
    then have "2 * B \<le> P * B" by (intro mult_le_mono1)
    with up have "B < S" using Bpos by linarith
    with up S39 have "(2 + P) * B < 4 * 2 ^ 39"
      by (simp add: add_mult_distrib)
    then show ?thesis by simp
  qed
  show HH: "unat ((2 + partition_entry_blocks d) * block_size d) = (2 + P) * B"
    using H small by simp
  have "(1 + P) * B \<le> (2 + P) * B" by (intro mult_le_mono1) simp
  with small show "unat ((1 + partition_entry_blocks d) * block_size d) = (1 + P) * B"
    using F by simp
  show "unat (2 * block_size d) = 2 * B"
    using B63 by (simp add: unat_word_ariths B_def)
  show "(2 + P) * B < 2 ^ 63"
    using H63 HH by simp
qed

section \<open>Contents of the returned blobs\<close>

lemma accepted_header:
  assumes acc: "make_gpt d = Inr out"
  defines "B \<equiv> unat (block_size d)"
    and "P \<equiv> unat (partition_entry_blocks d)"
  shows "length (header out) = (2 + P) * B"
    and "take 512 (header out) = gpt_protective_mbr_bytes (mbr_header d)"
    and "take 92 (drop B (header out)) = gpt_header_bytes (first_gpt_header d)"
    and "take (128 * length (partitions d)) (drop (2 * B) (header out)) = partition_span d"
proof -
  note c = construct_buffers_Inr [OF make_gpt_Inr(7) [OF acc]]
  note g = accepted_no_wrap [OF acc]
  define Z :: "byte list" where "Z = replicate ((2 + P) * B) 0"
  define h1 where "h1 = overwrite Z 0 (gpt_protective_mbr_bytes (mbr_header d))"
  define h2 where "h2 = overwrite h1 B (gpt_header_bytes (first_gpt_header d))"
  have hdr: "header out = overwrite h2 (2 * B) (partition_span d)"
    using c(6) by (simp add: g(8,10) h2_def h1_def Z_def B_def P_def)
  have B512: "512 \<le> B" using g(1) by (simp add: B_def)
  have fit2: "B + 92 \<le> (2 + P) * B"
    using c(3) by (simp add: g(8) B_def P_def)
  have fit3: "2 * B + 128 * length (partitions d) \<le> (2 + P) * B"
    using c(4) by (simp add: g(8,10) B_def P_def)
  have fit1: "512 \<le> (2 + P) * B"
    using fit2 B512 by linarith
  have l1: "length h1 = (2 + P) * B"
    using fit1 by (simp add: h1_def length_overwrite Z_def)
  have l2: "length h2 = (2 + P) * B"
    using fit2 l1 by (simp add: h2_def length_overwrite)
  show "length (header out) = (2 + P) * B"
    using fit3 l2 by (simp add: hdr length_overwrite)
  have "take 512 (drop 0 (header out)) = take 512 (drop 0 h2)"
    unfolding hdr using B512 fit3 l2 by (intro overwrite_read_before) simp_all
  also have "\<dots> = take 512 (drop 0 h1)"
    unfolding h2_def using B512 fit2 l1 by (intro overwrite_read_before) simp_all
  also have "\<dots> = gpt_protective_mbr_bytes (mbr_header d)"
    unfolding h1_def
    using fit1 overwrite_read_same [of 0 "gpt_protective_mbr_bytes (mbr_header d)" Z]
    by (simp add: Z_def)
  finally show "take 512 (header out) = gpt_protective_mbr_bytes (mbr_header d)"
    by simp
  have "take 92 (drop B (header out)) = take 92 (drop B h2)"
    unfolding hdr using B512 fit3 l2 by (intro overwrite_read_before) simp_all
  also have "\<dots> = gpt_header_bytes (first_gpt_header d)"
    unfolding h2_def
    using fit2 l1 overwrite_read_same [of B "gpt_header_bytes (first_gpt_header d)" h1]
    by simp
  finally show "take 92 (drop B (header out)) = gpt_header_bytes (first_gpt_header d)" .
  show "take (128 * length (partitions d)) (drop (2 * B) (header out)) = partition_span d"
    unfolding hdr
    using fit3 l2 overwrite_read_same [of "2 * B" "partition_span d" h2]
    by simp
qed

lemma accepted_footer:
  assumes acc: "make_gpt d = Inr out"
  defines "B \<equiv> unat (block_size d)"
    and "P \<equiv> unat (partition_entry_blocks d)"
  shows "length (footer out) = (1 + P) * B"
    and "footer out =
           overwrite (overwrite (replicate ((1 + P) * B) 0) 0 (partition_span d))
             B (gpt_header_bytes (second_gpt_header d))"
    and "take 92 (drop B (footer out)) = gpt_header_bytes (second_gpt_header d)"
    and "128 * length (partitions d) \<le> P * B"
    and "B + 92 \<le> (1 + P) * B"
proof -
  note c = construct_buffers_Inr [OF make_gpt_Inr(7) [OF acc]]
  note g = accepted_no_wrap [OF acc]
  define Z :: "byte list" where "Z = replicate ((1 + P) * B) 0"
  define f1 where "f1 = overwrite Z 0 (partition_span d)"
  show ftr: "footer out =
           overwrite (overwrite (replicate ((1 + P) * B) 0) 0 (partition_span d))
             B (gpt_header_bytes (second_gpt_header d))"
    using c(7) by (simp add: g(9) B_def P_def del: One_nat_def)
  have Bpos: "0 < B" using g(1) by (simp add: B_def)
  show fitS: "128 * length (partitions d) \<le> P * B"
    using ceiling_div_lower [OF Bpos, of "128 * length (partitions d)"] g(6)
    by (simp add: B_def P_def)
  show fit2: "B + 92 \<le> (1 + P) * B"
    using c(5) by (simp add: g(9) B_def P_def del: One_nat_def)
  have l1: "length f1 = (1 + P) * B"
    using fitS by (simp add: f1_def length_overwrite Z_def)
  show "length (footer out) = (1 + P) * B"
    using fit2 l1 by (simp add: ftr f1_def [symmetric] Z_def [symmetric] length_overwrite del: One_nat_def)
  show "take 92 (drop B (footer out)) = gpt_header_bytes (second_gpt_header d)"
    unfolding ftr Z_def [symmetric] f1_def [symmetric]
    using fit2 l1 overwrite_read_same [of B "gpt_header_bytes (second_gpt_header d)" f1]
    by simp
qed

section \<open>Layout of a header\<close>

lemma le32_0: "le32 0 = replicate 4 0"
  by (simp add: le32_def numeral_eq_Suc)

lemma array_of_exact: "length xs = n \<Longrightarrow> array_of n z xs = xs"
  by (simp add: array_of_def)

lemma ascii_EFI_PART: "ascii ''EFI PART'' = [0x45, 0x46, 0x49, 0x20, 0x50, 0x41, 0x52, 0x54]"
  by (simp add: ascii_def)

text \<open>Where the fields of a header lie in its 92 bytes.\<close>

lemma gpt_header_bytes_signature:
  "take 8 (gpt_header_bytes h) = array_of 8 0 (gpt_header.signature h)"
  by (simp add: gpt_header_bytes_def)

lemma gpt_header_bytes_header_crc32:
  "take 4 (drop 16 (gpt_header_bytes h)) = le32 (header_crc32 h)"
  by (simp add: gpt_header_bytes_def)

lemma gpt_header_bytes_partition_entry_checksum:
  "take 4 (drop 88 (gpt_header_bytes h)) = le32 (partition_entry_checksum h)"
  by (simp add: gpt_header_bytes_def)

lemma gpt_header_bytes_update_crc32:
  "gpt_header_bytes (h\<lparr>header_crc32 := c\<rparr>) =
     take 16 (gpt_header_bytes h) @ le32 c @ drop 20 (gpt_header_bytes h)"
  by (simp add: gpt_header_bytes_def)

lemma header_crc32_zero_update:
  "header_crc32 h = 0 \<Longrightarrow> h\<lparr>header_crc32 := 0\<rparr> = h"
  by (cases h) simp

lemma with_header_crc32_zeroed:
  "header_crc32 h = 0 \<Longrightarrow> (with_header_crc32 h)\<lparr>header_crc32 := 0\<rparr> = h"
  by (simp add: with_header_crc32_def header_crc32_zero_update)

lemma with_header_crc32_stored:
  "header_crc32 h = 0 \<Longrightarrow>
   header_crc32 (with_header_crc32 h) = crc32 (gpt_header_bytes ((with_header_crc32 h)\<lparr>header_crc32 := 0\<rparr>))"
  by (simp add: with_header_crc32_def header_crc32_zero_update)

text \<open>Scenario F on the bytes: zero bytes 16 to 19, checksum the 92 bytes, compare.\<close>

lemma header_bytes_crc_roundtrip:
  assumes "header_crc32 h = 0" and "hb = gpt_header_bytes (with_header_crc32 h)"
  shows "take 4 (drop 16 hb) = le32 (crc32 (take 16 hb @ replicate 4 0 @ drop 20 hb))"
proof -
  have "take 16 hb @ replicate 4 0 @ drop 20 hb =
        gpt_header_bytes ((with_header_crc32 h)\<lparr>header_crc32 := 0\<rparr>)"
    by (simp only: assms(2) gpt_header_bytes_update_crc32 le32_0)
  also have "\<dots> = gpt_header_bytes h"
    by (simp only: with_header_crc32_zeroed [OF assms(1)])
  finally have "crc32 (take 16 hb @ replicate 4 0 @ drop 20 hb) = header_crc32 (with_header_crc32 h)"
    by (simp add: with_header_crc32_def)
  then show ?thesis
    by (simp only: assms(2) gpt_header_bytes_header_crc32)
qed

section \<open>Descriptors that are accepted\<close>

text \<open>
  The other direction: a descriptor that passes validation gets its two blobs, as long as
  the larger vector, of \<open>2 + ceil (128 * N / block_size)\<close> blocks, is not above
  \<open>max_size()\<close>.
\<close>

lemma small_block_no_wrap:
  assumes bs: "block_size d \<noteq> 0" "block_size d mod 512 = 0"
    and ps: "partitions d \<noteq> []" "length (partitions d) \<le> 4294967295"
    and small: "(2 + (128 * length (partitions d) + (unat (block_size d) - 1))
                    div unat (block_size d)) * unat (block_size d) \<le> vector_max_size"
  defines "B \<equiv> unat (block_size d)"
    and "S \<equiv> 128 * length (partitions d)"
    and "P \<equiv> unat (partition_entry_blocks d)"
  shows "512 \<le> B" and "P = (S + (B - 1)) div B" and "1 \<le> P" and "S \<le> P * B"
    and "unat ((2 + partition_entry_blocks d) * block_size d) = (2 + P) * B"
    and "unat ((1 + partition_entry_blocks d) * block_size d) = (1 + P) * B"
    and "unat (2 * block_size d) = 2 * B"
    and "(2 + P) * B < 2 ^ 63"
proof -
  show B512: "512 \<le> B"
    using block_size_bounds [OF bs] by (simp add: B_def)
  have fits: "(2 + (S + (B - 1)) div B) * B < 9223372036854775808"
    using small by (simp add: B_def S_def vector_max_size_def)
  have "2 * B \<le> (2 + (S + (B - 1)) div B) * B"
    by (intro mult_le_mono1) simp
  with fits have Bn: "B < 4611686018427387904"
    by linarith
  have Sn: "128 \<le> S" "S < 549755813888"
    using ps by (simp_all add: S_def Suc_le_eq)
  have Bm1: "unat (block_size d - 1) = B - 1"
    using bs(1) by (simp add: unat_minus_one B_def)
  have "unat (size_bytes d + (block_size d - 1)) = (S + (B - 1)) mod 2 ^ 64"
    using ps(2) by (simp add: unat_word_ariths unat_size_bytes Bm1 S_def)
  also have "\<dots> = S + (B - 1)"
    using Sn Bn by simp
  finally have sum: "unat (size_bytes d + (block_size d - 1)) = S + (B - 1)" .
  show Pdef: "P = (S + (B - 1)) div B"
    by (simp add: P_def partition_entry_blocks_def unat_div sum B_def)
  have Bpos: "0 < B" using B512 by simp
  have up: "P * B \<le> S + (B - 1)"
    unfolding Pdef by (rule ceiling_div_upper [OF Bpos])
  show lo: "S \<le> P * B"
    unfolding Pdef by (rule ceiling_div_lower [OF Bpos])
  show P1: "1 \<le> P"
  proof (rule ccontr)
    assume "\<not> 1 \<le> P"
    then have "P = 0" by simp
    with lo Sn show False by simp
  qed
  have "P * 512 \<le> P * B" using B512 by (intro mult_le_mono2)
  with up Sn Bn have Pn: "P < 4611686018427387904" by linarith
  have u1: "unat (1 + partition_entry_blocks d) = 1 + P"
    using Pn by (simp add: unat_word_ariths P_def)
  have u2: "unat (2 + partition_entry_blocks d) = 2 + P"
    using Pn by (simp add: unat_word_ariths P_def)
  have Hn: "(2 + P) * B < 9223372036854775808"
    using fits by (simp only: Pdef)
  then show "(2 + P) * B < 2 ^ 63" by simp
  have "unat ((2 + partition_entry_blocks d) * block_size d) = ((2 + P) * B) mod 2 ^ 64"
    by (simp only: unat_word_ariths(2) u2 B_def) simp
  then show "unat ((2 + partition_entry_blocks d) * block_size d) = (2 + P) * B"
    using Hn by simp
  have "(1 + P) * B \<le> (2 + P) * B" by (intro mult_le_mono1) simp
  with Hn have Fn: "(1 + P) * B < 9223372036854775808" by linarith
  have "unat ((1 + partition_entry_blocks d) * block_size d) = ((1 + P) * B) mod 2 ^ 64"
    by (simp only: unat_word_ariths(2) u1 B_def) simp
  then show "unat ((1 + partition_entry_blocks d) * block_size d) = (1 + P) * B"
    using Fn by simp
  show "unat (2 * block_size d) = 2 * B"
    using Bn by (simp add: unat_word_ariths B_def)
qed

lemma construct_buffers_returns:
  assumes bs: "block_size d \<noteq> 0" "block_size d mod 512 = 0"
    and ps: "partitions d \<noteq> []" "length (partitions d) \<le> 4294967295"
    and small: "(2 + (128 * length (partitions d) + (unat (block_size d) - 1))
                    div unat (block_size d)) * unat (block_size d) \<le> vector_max_size"
  shows "\<exists>out. construct_buffers d = Inr out"
proof -
  note g = small_block_no_wrap [OF bs ps small]
  define B where "B = unat (block_size d)"
  define P where "P = unat (partition_entry_blocks d)"
  define S where "S = 128 * length (partitions d)"
  have B512: "512 \<le> B" and P1: "1 \<le> P" and SP: "S \<le> P * B"
    using g(1,3,4) by (simp_all add: B_def P_def S_def)
  have e: "(2 + P) * B = 2 * B + P * B" "(1 + P) * B = B + P * B"
    by (simp_all add: add_mult_distrib)
  have "B * 1 \<le> P * B" using P1 by (metis mult.commute mult_le_mono1)
  then have PB: "B \<le> P * B" by simp
  have H: "unat ((2 + partition_entry_blocks d) * block_size d) = (2 + P) * B"
    and F: "unat ((1 + partition_entry_blocks d) * block_size d) = (1 + P) * B"
    and T: "unat (2 * block_size d) = 2 * B"
    using g(5,6,7) by (simp_all add: B_def P_def)
  have Hmax: "(2 + P) * B \<le> vector_max_size"
    using g(8) by (simp add: vector_max_size_def B_def P_def)
  have "(1 + P) * B \<le> (2 + P) * B" by (intro mult_le_mono1) simp
  with Hmax have Fmax: "(1 + P) * B \<le> vector_max_size" by simp
  have fits: "512 \<le> (2 + P) * B" "B + 92 \<le> (2 + P) * B" "2 * B + S \<le> (2 + P) * B"
    "S \<le> (1 + P) * B" "B + 92 \<le> (1 + P) * B"
    using B512 PB SP unfolding e by linarith+
  show ?thesis
    using fits Hmax Fmax
    by (simp add: construct_buffers_def new_vector_def memcpy_def H F T length_overwrite
        B_def [symmetric] S_def [symmetric] del: One_nat_def)
qed

lemma make_gpt_returns:
  assumes "block_size d \<noteq> 0" and "block_size d mod 512 = 0"
    and "partitions d \<noteq> []" and "length (partitions d) \<le> 4294967295"
    and "\<not> number_of_blocks d < gpt_blocks d + 1"
    and "check_partitions (first_usable_lba_of d) (last_usable_lba_of d) (partitions d) = None"
    and "(2 + (128 * length (partitions d) + (unat (block_size d) - 1))
             div unat (block_size d)) * unat (block_size d) \<le> vector_max_size"
  shows "\<exists>out. make_gpt d = Inr out"
  using assms construct_buffers_returns [of d]
  by (simp add: make_gpt_def)

lemma scenario_A_quantities:
  "partition_entry_blocks scenario_A = 1" "gpt_blocks scenario_A = 5"
  "first_usable_lba_of scenario_A = 3" "last_usable_lba_of scenario_A = 2045"
  by (simp_all add: scenario_A_def blank_disk_def partition_entry_blocks_def size_bytes_def
      gpt_blocks_def first_usable_lba_of_def last_usable_lba_of_def)

lemma scenario_A_returns: "\<exists>out. make_gpt scenario_A = Inr out"
proof (rule make_gpt_returns)
  show "check_partitions (first_usable_lba_of scenario_A) (last_usable_lba_of scenario_A)
          (partitions scenario_A) = None"
    unfolding scenario_A_quantities
    by (simp add: scenario_A_def blank_disk_def blank_partition_def)
qed (simp_all add: scenario_A_quantities,
    simp_all add: scenario_A_def blank_disk_def vector_max_size_def)

section \<open>The two GPT headers\<close>

lemma first_gpt_header_fields:
  "gpt_header.signature (first_gpt_header d) = ascii ''EFI PART''"
  "my_lba (first_gpt_header d) = 1"
  "alternate_lba (first_gpt_header d) = number_of_blocks d - 1"
  "first_usable_lba (first_gpt_header d) = first_usable_lba_of d"
  "last_usable_lba (first_gpt_header d) = last_usable_lba_of d"
  "partition_entry_lba (first_gpt_header d) = 2"
  "partition_entry_checksum (first_gpt_header d) = partition_entry_checksum_of d"
  by (simp_all add: first_gpt_header_def with_header_crc32_def)

lemma second_gpt_header_fields:
  "gpt_header.signature (second_gpt_header d) = ascii ''EFI PART''"
  "my_lba (second_gpt_header d) = number_of_blocks d - 1"
  "alternate_lba (second_gpt_header d) = 1"
  "first_usable_lba (second_gpt_header d) = first_usable_lba_of d"
  "last_usable_lba (second_gpt_header d) = last_usable_lba_of d"
  "partition_entry_lba (second_gpt_header d) = number_of_blocks d - 1 - partition_entry_blocks d"
  "partition_entry_checksum (second_gpt_header d) = partition_entry_checksum_of d"
  by (simp_all add: second_gpt_header_def with_header_crc32_def first_usable_lba_of_def
      last_usable_lba_of_def)

lemma first_gpt_header_crc32:
  "header_crc32 (first_gpt_header d) =
     crc32 (gpt_header_bytes ((first_gpt_header d)\<lparr>header_crc32 := 0\<rparr>))"
  unfolding first_gpt_header_def by (rule with_header_crc32_stored) simp

lemma second_gpt_header_crc32:
  "header_crc32 (second_gpt_header d) =
     crc32 (gpt_header_bytes ((second_gpt_header d)\<lparr>header_crc32 := 0\<rparr>))"
  unfolding second_gpt_header_def by (rule with_header_crc32_stored) simp

lemma first_gpt_header_checks: "header_crc32_checks (gpt_header_bytes (first_gpt_header d))"
  unfolding header_crc32_checks_def first_gpt_header_def
  by (intro conjI length_gpt_header_bytes header_bytes_crc_roundtrip [OF _ refl]) simp

lemma second_gpt_header_checks: "header_crc32_checks (gpt_header_bytes (second_gpt_header d))"
  unfolding header_crc32_checks_def second_gpt_header_def
  by (intro conjI length_gpt_header_bytes header_bytes_crc_roundtrip [OF _ refl]) simp

text \<open>
  Claim C7. In a returned result, each of the two headers that were written (the
  primary one into the header blob, the backup one into the footer blob) passes the
  round trip: its 92 bytes with \<open>header_crc32\<close> zeroed have as their CRC-32 the value
  stored in \<open>header_crc32\<close>. The checksum is over those 92 bytes only, not the padding of
  the block.
\<close>

theorem header_crc32_round_trip:
  assumes "make_gpt d = Inr out"
  shows "take 92 (drop (unat (block_size d)) (header out)) = gpt_header_bytes (first_gpt_header d)
       \<and> take 92 (drop (unat (block_size d)) (footer out)) = gpt_header_bytes (second_gpt_header d)
       \<and> header_crc32_checks (take 92 (drop (unat (block_size d)) (header out)))
       \<and> header_crc32_checks (take 92 (drop (unat (block_size d)) (footer out)))
       \<and> header_crc32 (first_gpt_header d) =
           crc32 (gpt_header_bytes ((first_gpt_header d)\<lparr>header_crc32 := 0\<rparr>))
       \<and> header_crc32 (second_gpt_header d) =
           crc32 (gpt_header_bytes ((second_gpt_header d)\<lparr>header_crc32 := 0\<rparr>))
       \<and> length (gpt_header_bytes ((first_gpt_header d)\<lparr>header_crc32 := 0\<rparr>)) = 92
       \<and> length (gpt_header_bytes ((second_gpt_header d)\<lparr>header_crc32 := 0\<rparr>)) = 92"
  by (simp only: accepted_header(3) [OF assms] accepted_footer(3) [OF assms]
      first_gpt_header_checks second_gpt_header_checks length_gpt_header_bytes
      first_gpt_header_crc32 [symmetric] second_gpt_header_crc32 [symmetric] simp_thms)

theorem header_crc32_round_trip_witness:
  "\<exists>out. make_gpt scenario_A = Inr out
     \<and> header_crc32_checks (take 92 (drop 512 (header out)))
     \<and> header_crc32_checks (take 92 (drop 512 (footer out)))"
proof -
  obtain out where acc: "make_gpt scenario_A = Inr out"
    using scenario_A_returns by blast
  have "unat (block_size scenario_A) = 512"
    by (simp add: scenario_A_def blank_disk_def)
  with header_crc32_round_trip [OF acc] acc show ?thesis
    by auto
qed

text \<open>
  Claim C8. In a returned result, the \<open>partition_entry_checksum\<close> of the primary and of the
  backup header is the CRC-32 of the \<open>128 * N\<close> bytes of the partition entry array, which
  are the bytes at offset \<open>2 * block_size\<close> of the header blob.
\<close>

theorem partition_entry_checksum_is_crc32_of_array:
  assumes "make_gpt d = Inr out"
  shows "take (128 * length (partitions d)) (drop (2 * unat (block_size d)) (header out))
           = partition_span d
       \<and> length (partition_span d) = 128 * length (partitions d)
       \<and> partition_entry_checksum (first_gpt_header d) =
           crc32 (take (128 * length (partitions d)) (drop (2 * unat (block_size d)) (header out)))
       \<and> partition_entry_checksum (second_gpt_header d) =
           crc32 (take (128 * length (partitions d)) (drop (2 * unat (block_size d)) (header out)))
       \<and> take 4 (drop 88 (take 92 (drop (unat (block_size d)) (header out)))) =
           le32 (crc32 (take (128 * length (partitions d))
                          (drop (2 * unat (block_size d)) (header out))))
       \<and> take 4 (drop 88 (take 92 (drop (unat (block_size d)) (footer out)))) =
           le32 (crc32 (take (128 * length (partitions d))
                          (drop (2 * unat (block_size d)) (header out))))"
  by (simp only: accepted_header(3,4) [OF assms] accepted_footer(3) [OF assms]
      gpt_header_bytes_partition_entry_checksum first_gpt_header_fields(7)
      second_gpt_header_fields(7) partition_entry_checksum_of_def length_partition_span
      simp_thms)

theorem partition_entry_checksum_is_crc32_of_array_witness:
  "\<exists>out. make_gpt scenario_A = Inr out
     \<and> partition_entry_checksum (first_gpt_header scenario_A) =
         crc32 (take 128 (drop 1024 (header out)))
     \<and> partition_entry_checksum (second_gpt_header scenario_A) =
         crc32 (take 128 (drop 1024 (header out)))"
proof -
  obtain out where acc: "make_gpt scenario_A = Inr out"
    using scenario_A_returns by blast
  have "unat (block_size scenario_A) = 512" "length (partitions scenario_A) = 1"
    by (simp_all add: scenario_A_def blank_disk_def)
  with partition_entry_checksum_is_crc32_of_array [OF acc] acc show ?thesis
    by auto
qed

section \<open>The usable region\<close>

text \<open>
  The block count of the partition array is bounded once the block size is at least 512,
  whatever the sum in its numerator wrapped to.
\<close>

lemma partition_entry_blocks_bound:
  assumes "block_size d \<noteq> 0" and "block_size d mod 512 = 0"
  shows "unat (partition_entry_blocks d) < 2 ^ 55"
proof -
  define x where "x = size_bytes d + (block_size d - 1)"
  define B where "B = unat (block_size d)"
  define P where "P = unat (partition_entry_blocks d)"
  have B512: "512 \<le> B"
    using block_size_bounds(1) [OF assms] by (simp add: B_def)
  have P: "P = unat x div B"
    by (simp add: P_def partition_entry_blocks_def x_def B_def unat_div)
  have "P * B \<le> unat x"
    unfolding P by simp
  moreover have "P * 512 \<le> P * B"
    using B512 by (intro mult_le_mono2)
  moreover have "unat x < 18446744073709551616"
    using unsigned_less [of x] by simp
  ultimately have "P < 36028797018963968" by linarith
  then show ?thesis by (simp add: P_def)
qed

lemma usable_region:
  assumes bs: "block_size d \<noteq> 0" "block_size d mod 512 = 0"
    and nb: "\<not> number_of_blocks d < gpt_blocks d + 1"
  defines "P \<equiv> unat (partition_entry_blocks d)"
  shows "unat (gpt_blocks d + 1) = 3 + 2 * P + 1"
    and "3 + 2 * P + 1 \<le> unat (number_of_blocks d)"
    and "unat (first_usable_lba_of d) = 2 + P"
    and "unat (last_usable_lba_of d) = unat (number_of_blocks d) - P - 2"
    and "first_usable_lba_of d \<le> last_usable_lba_of d"
proof -
  have Pn: "P < 36028797018963968"
    using partition_entry_blocks_bound [OF bs] by (simp add: P_def)
  have m: "unat (partition_entry_blocks d * 2) = 2 * P"
    using Pn by (simp add: unat_word_ariths P_def)
  have g: "unat (gpt_blocks d) = 3 + 2 * P"
    unfolding gpt_blocks_def using Pn by (simp add: unat_word_ariths(1) m)
  show g1: "unat (gpt_blocks d + 1) = 3 + 2 * P + 1"
    using Pn by (simp add: unat_word_ariths(1) g)
  show big: "3 + 2 * P + 1 \<le> unat (number_of_blocks d)"
    using nb g1 by (simp add: word_less_nat_alt)
  show f: "unat (first_usable_lba_of d) = 2 + P"
    unfolding first_usable_lba_of_def using Pn by (simp add: unat_word_ariths(1) P_def)
  have "partition_entry_blocks d \<le> number_of_blocks d"
    using big by (simp add: word_le_nat_alt P_def)
  then have s1: "unat (number_of_blocks d - partition_entry_blocks d) = unat (number_of_blocks d) - P"
    by (simp add: unat_sub P_def)
  have "2 \<le> number_of_blocks d - partition_entry_blocks d"
    using big s1 by (simp add: word_le_nat_alt)
  then show l: "unat (last_usable_lba_of d) = unat (number_of_blocks d) - P - 2"
    unfolding last_usable_lba_of_def by (simp add: unat_sub s1)
  show "first_usable_lba_of d \<le> last_usable_lba_of d"
    using big by (simp add: word_le_nat_alt f l)
qed

text \<open>
  Claim C10. For a descriptor that gets past the block-size check and the
  \<open>number_of_blocks\<close> check, \<open>first_usable_lba = 2 + partition_entry_blocks\<close> is at most
  \<open>last_usable_lba = number_of_blocks - partition_entry_blocks - 2\<close>: the usable region
  has at least one block, and neither the addition nor the subtractions wrap around.
\<close>

theorem usable_region_nonempty:
  assumes "\<not> (block_size d = 0 \<or> block_size d mod 512 \<noteq> 0)"
    and "\<not> number_of_blocks d < gpt_blocks d + 1"
  shows "first_usable_lba_of d \<le> last_usable_lba_of d
       \<and> unat (first_usable_lba_of d) = 2 + unat (partition_entry_blocks d)
       \<and> unat (last_usable_lba_of d) =
           unat (number_of_blocks d) - unat (partition_entry_blocks d) - 2
       \<and> unat (partition_entry_blocks d) + 2 \<le> unat (number_of_blocks d)
       \<and> 2 + unat (partition_entry_blocks d)
           \<le> unat (number_of_blocks d) - unat (partition_entry_blocks d) - 2"
proof -
  from assms(1) have bs: "block_size d \<noteq> 0" "block_size d mod 512 = 0"
    by simp_all
  note u = usable_region [OF bs assms(2)]
  from u(2) have "unat (partition_entry_blocks d) + 2 \<le> unat (number_of_blocks d)"
    and "2 + unat (partition_entry_blocks d)
           \<le> unat (number_of_blocks d) - unat (partition_entry_blocks d) - 2"
    by linarith+
  with u(3,4,5) show ?thesis by simp
qed

theorem usable_region_nonempty_witness:
  "first_usable_lba_of scenario_A \<le> last_usable_lba_of scenario_A
   \<and> unat (first_usable_lba_of scenario_A) = 3
   \<and> unat (last_usable_lba_of scenario_A) = 2045"
proof -
  have "\<not> (block_size scenario_A = 0 \<or> block_size scenario_A mod 512 \<noteq> 0)"
    by (simp add: scenario_A_def blank_disk_def)
  moreover have "\<not> number_of_blocks scenario_A < gpt_blocks scenario_A + 1"
    by (simp add: scenario_A_quantities) (simp add: scenario_A_def blank_disk_def)
  ultimately show ?thesis
    using usable_region_nonempty [of scenario_A]
    by (simp add: scenario_A_quantities)
qed

section \<open>Layout of the protective MBR\<close>

lemma length_partition_records [simp]:
  "length (concat (map partition_record_bytes (array_of 4 z rs))) = 64"
  by (simp add: length_concat_const [where k = 16])

lemma gpt_protective_mbr_bytes_signature:
  "drop 510 (gpt_protective_mbr_bytes m) = array_of 2 0 (gpt_protective_mbr.signature m)"
  by (simp add: gpt_protective_mbr_bytes_def)

lemma mbr_header_signature:
  "gpt_protective_mbr_bytes (mbr_header d) ! 510 = 0x55"
  "gpt_protective_mbr_bytes (mbr_header d) ! 511 = 0xAA"
proof -
  have "drop 510 (gpt_protective_mbr_bytes (mbr_header d)) = [0x55, 0xAA]"
    by (simp add: gpt_protective_mbr_bytes_signature mbr_header_def array_of_exact)
  then have "drop 510 (gpt_protective_mbr_bytes (mbr_header d)) ! 0 = 0x55"
    and "drop 510 (gpt_protective_mbr_bytes (mbr_header d)) ! 1 = 0xAA"
    by simp_all
  then show "gpt_protective_mbr_bytes (mbr_header d) ! 510 = 0x55"
    and "gpt_protective_mbr_bytes (mbr_header d) ! 511 = 0xAA"
    by simp_all
qed

lemma first_gpt_header_bytes_signature:
  "take 8 (gpt_header_bytes (first_gpt_header d)) = ascii ''EFI PART''"
  by (simp add: gpt_header_bytes_signature first_gpt_header_fields(1) array_of_exact ascii_def)

section \<open>Sizes of the blobs and the primary header\<close>

lemma accepted_sizes:
  assumes acc: "make_gpt d = Inr out"
  defines "B \<equiv> unat (block_size d)"
    and "N \<equiv> length (partitions d)"
    and "P \<equiv> unat (partition_entry_blocks d)"
  shows "P = (128 * N + (B - 1)) div B" and "128 * N \<le> P * B" and "P * B < 128 * N + B"
    and "length (header out) = (2 + P) * B" and "length (footer out) = (1 + P) * B"
proof -
  note g = accepted_no_wrap [OF acc]
  show Pdef: "P = (128 * N + (B - 1)) div B"
    using g(6) by (simp add: P_def N_def B_def)
  have Bpos: "0 < B" using g(1) by (simp add: B_def)
  show "128 * N \<le> P * B"
    unfolding Pdef by (rule ceiling_div_lower [OF Bpos])
  have "P * B \<le> 128 * N + (B - 1)"
    unfolding Pdef by (rule ceiling_div_upper [OF Bpos])
  with Bpos show "P * B < 128 * N + B" by linarith
  show "length (header out) = (2 + P) * B"
    using accepted_header(1) [OF acc] by (simp add: P_def B_def)
  show "length (footer out) = (1 + P) * B"
    using accepted_footer(1) [OF acc] by (simp add: P_def B_def del: One_nat_def)
qed

lemma accepted_mbr_signature:
  assumes acc: "make_gpt d = Inr out"
  shows "header out ! 510 = 0x55" and "header out ! 511 = 0xAA"
proof -
  have "take 512 (header out) ! 510 = 0x55" and "take 512 (header out) ! 511 = 0xAA"
    by (simp_all only: accepted_header(2) [OF acc] mbr_header_signature)
  then show "header out ! 510 = 0x55" and "header out ! 511 = 0xAA"
    by simp_all
qed

lemma accepted_efi_part:
  assumes acc: "make_gpt d = Inr out"
  shows "take 8 (drop (unat (block_size d)) (header out)) = ascii ''EFI PART''"
proof -
  have "take 8 (take 92 (drop (unat (block_size d)) (header out))) = ascii ''EFI PART''"
    by (simp only: accepted_header(3) [OF acc] first_gpt_header_bytes_signature)
  then show ?thesis by simp
qed

lemma accepted_primary_lbas:
  assumes acc: "make_gpt d = Inr out"
  shows "unat (alternate_lba (first_gpt_header d)) = unat (number_of_blocks d) - 1"
    and "unat (first_usable_lba (first_gpt_header d)) = 2 + unat (partition_entry_blocks d)"
    and "unat (last_usable_lba (first_gpt_header d)) =
           unat (number_of_blocks d) - unat (partition_entry_blocks d) - 2"
proof -
  note v = make_gpt_Inr [OF acc]
  have nb: "\<not> number_of_blocks d < gpt_blocks d + 1"
    using v(5) by simp
  note u = usable_region [OF v(1,2) nb]
  have "number_of_blocks d \<noteq> 0"
    using u(2) by (auto simp add: unat_eq_0)
  then show "unat (alternate_lba (first_gpt_header d)) = unat (number_of_blocks d) - 1"
    by (simp add: first_gpt_header_fields unat_minus_one)
  show "unat (first_usable_lba (first_gpt_header d)) = 2 + unat (partition_entry_blocks d)"
    by (simp only: first_gpt_header_fields u(3))
  show "unat (last_usable_lba (first_gpt_header d)) =
           unat (number_of_blocks d) - unat (partition_entry_blocks d) - 2"
    by (simp only: first_gpt_header_fields u(4))
qed

lemma one_partition_512:
  assumes "block_size d = 512" and "length (partitions d) = 1"
  shows "partition_entry_blocks d = 1"
  using assms by (simp add: partition_entry_blocks_def size_bytes_def)

text \<open>
  Claim C6, amended. For every returned result, with \<open>B\<close> the block size, \<open>N\<close> the number
  of partitions and \<open>P = partition_entry_blocks\<close>: \<open>P\<close> is the ceiling of \<open>128 * N / B\<close>;
  the header blob has \<open>(2 + P) * B\<close> bytes and the footer blob \<open>(1 + P) * B\<close>; the header
  blob starts with the 512 bytes of the protective MBR, with \<open>0x55\<close> at offset 510 and
  \<open>0xAA\<close> at 511; at offset \<open>B\<close> it holds the primary header, which begins with
  \<open>EFI PART\<close> and has \<open>my_lba = 1\<close>, \<open>alternate_lba = number_of_blocks - 1\<close>,
  \<open>first_usable_lba = 2 + P\<close>, \<open>last_usable_lba = number_of_blocks - P - 2\<close> and
  \<open>partition_entry_lba = 2\<close>. For 2048 blocks of 512 bytes and one partition this is
  1536 and 1024 bytes, first usable block 3 and last usable block 2045.
\<close>

theorem blob_sizes_and_primary_header:
  assumes acc: "make_gpt d = Inr out"
  defines "B \<equiv> unat (block_size d)"
    and "N \<equiv> length (partitions d)"
    and "P \<equiv> unat (partition_entry_blocks d)"
  shows "P = (128 * N + (B - 1)) div B \<and> 128 * N \<le> P * B \<and> P * B < 128 * N + B
       \<and> length (header out) = (2 + P) * B
       \<and> length (footer out) = (1 + P) * B
       \<and> take 512 (header out) = gpt_protective_mbr_bytes (mbr_header d)
       \<and> header out ! 510 = 0x55 \<and> header out ! 511 = 0xAA
       \<and> take 92 (drop B (header out)) = gpt_header_bytes (first_gpt_header d)
       \<and> take 8 (drop B (header out)) = ascii ''EFI PART''
       \<and> my_lba (first_gpt_header d) = 1
       \<and> alternate_lba (first_gpt_header d) = number_of_blocks d - 1
       \<and> unat (alternate_lba (first_gpt_header d)) = unat (number_of_blocks d) - 1
       \<and> unat (first_usable_lba (first_gpt_header d)) = 2 + P
       \<and> unat (last_usable_lba (first_gpt_header d)) = unat (number_of_blocks d) - P - 2
       \<and> partition_entry_lba (first_gpt_header d) = 2
       \<and> (block_size d = 512 \<and> number_of_blocks d = 2048 \<and> N = 1 \<longrightarrow>
            length (header out) = 1536 \<and> length (footer out) = 1024
            \<and> first_usable_lba (first_gpt_header d) = 3
            \<and> last_usable_lba (first_gpt_header d) = 2045)"
proof -
  note s = accepted_sizes [OF acc, folded B_def N_def P_def]
  note h = accepted_header [OF acc, folded B_def P_def]
  note l = accepted_primary_lbas [OF acc, folded P_def]
  have example: "length (header out) = 1536 \<and> length (footer out) = 1024
            \<and> first_usable_lba (first_gpt_header d) = 3
            \<and> last_usable_lba (first_gpt_header d) = 2045"
    if "block_size d = 512" and "number_of_blocks d = 2048" and "N = 1"
  proof -
    have p: "partition_entry_blocks d = 1"
      using that by (intro one_partition_512) (simp_all add: N_def)
    have "P = 1" "B = 512"
      using p that by (simp_all add: P_def B_def)
    then show ?thesis
      using s(4,5) that p
      by (simp add: first_gpt_header_fields first_usable_lba_of_def last_usable_lba_of_def)
  qed
  have ex: "block_size d = 512 \<and> number_of_blocks d = 2048 \<and> N = 1 \<longrightarrow>
            length (header out) = 1536 \<and> length (footer out) = 1024
            \<and> first_usable_lba (first_gpt_header d) = 3
            \<and> last_usable_lba (first_gpt_header d) = 2045"
    using example by blast
  note f = first_gpt_header_fields(2,3,6) [of d]
  note m = accepted_mbr_signature [OF acc]
  note e = accepted_efi_part [OF acc, folded B_def]
  show ?thesis
    by (intro conjI) (fact s h(2,3) l m e f ex)+
qed

theorem blob_sizes_and_primary_header_witness:
  "\<exists>out. make_gpt scenario_A = Inr out
     \<and> length (header out) = 1536 \<and> length (footer out) = 1024
     \<and> header out ! 510 = 0x55 \<and> header out ! 511 = 0xAA
     \<and> take 8 (drop 512 (header out)) = ascii ''EFI PART''
     \<and> first_usable_lba (first_gpt_header scenario_A) = 3
     \<and> last_usable_lba (first_gpt_header scenario_A) = 2045"
proof -
  obtain out where acc: "make_gpt scenario_A = Inr out"
    using scenario_A_returns by blast
  have "block_size scenario_A = 512" "number_of_blocks scenario_A = 2048"
    "length (partitions scenario_A) = 1" "unat (block_size scenario_A) = 512"
    by (simp_all add: scenario_A_def blank_disk_def)
  with blob_sizes_and_primary_header [OF acc] acc show ?thesis
    by auto
qed

text \<open>
  The numbers of the claim as stated (9216 and 8704 bytes, usable blocks 34 to 2014) are
  not those of one partition: Scenario A is accepted and gives 1536 and 1024 bytes and
  usable blocks 3 to 2045.
\<close>

theorem scenario_A_sizes_counterexample:
  "\<not> isl (make_gpt scenario_A)
   \<and> length (header (projr (make_gpt scenario_A))) = 1536
   \<and> length (footer (projr (make_gpt scenario_A))) = 1024
   \<and> first_usable_lba (first_gpt_header scenario_A) = 3
   \<and> last_usable_lba (first_gpt_header scenario_A) = 2045
   \<and> \<not> (length (header (projr (make_gpt scenario_A))) = 9216
        \<and> length (footer (projr (make_gpt scenario_A))) = 8704
        \<and> first_usable_lba (first_gpt_header scenario_A) = 34
        \<and> last_usable_lba (first_gpt_header scenario_A) = 2014)"
proof -
  obtain out where acc: "make_gpt scenario_A = Inr out"
    using scenario_A_returns by blast
  have "length (header out) = (2 + 1) * 512" "length (footer out) = (1 + 1) * 512"
    using accepted_header(1) [OF acc] accepted_footer(1) [OF acc]
    by (simp_all add: scenario_A_quantities) (simp_all add: scenario_A_def blank_disk_def)
  then show ?thesis
    by (simp add: acc first_gpt_header_fields scenario_A_quantities)
qed

section \<open>Validation\<close>

lemma check_partitions_invalid:
  "check_partitions first_usable last_usable ps = Some e \<Longrightarrow> \<exists>message. e = Invalid_Argument message"
  by (induction ps) (auto split: if_splits)

lemma check_partitions_range:
  assumes "p \<in> set ps"
    and "starting_lba p < first_usable \<or> ending_lba p > last_usable \<or> starting_lba p > ending_lba p"
  shows "check_partitions first_usable last_usable ps \<noteq> None"
  using assms by (induction ps) auto

lemma invalid_descriptor_Inl [simp]: "invalid_descriptor (Inl (Invalid_Argument message))"
  by (simp add: invalid_descriptor_def)

lemma reject_block_size:
  "block_size d = 0 \<or> block_size d mod 512 \<noteq> 0 \<Longrightarrow> invalid_descriptor (make_gpt d)"
  by (auto simp add: make_gpt_def)

lemma reject_no_partitions:
  "partitions d = [] \<Longrightarrow> invalid_descriptor (make_gpt d)"
  by (simp add: make_gpt_def)

lemma reject_too_many_partitions:
  "length (partitions d) > 4294967295 \<Longrightarrow> invalid_descriptor (make_gpt d)"
  by (simp add: make_gpt_def)

lemma reject_too_few_blocks_word:
  "number_of_blocks d < gpt_blocks d + 1 \<Longrightarrow> invalid_descriptor (make_gpt d)"
  by (simp add: make_gpt_def)

lemma reject_too_few_blocks:
  assumes "unat (number_of_blocks d) < 3 + 2 * unat (partition_entry_blocks d) + 1"
  shows "invalid_descriptor (make_gpt d)"
proof (cases "block_size d = 0 \<or> block_size d mod 512 \<noteq> 0")
  case True
  then show ?thesis by (rule reject_block_size)
next
  case False
  then have bs: "block_size d \<noteq> 0" "block_size d mod 512 = 0" by simp_all
  show ?thesis
  proof (rule ccontr)
    assume n: "\<not> invalid_descriptor (make_gpt d)"
    then have "\<not> number_of_blocks d < gpt_blocks d + 1"
      using reject_too_few_blocks_word by blast
    from usable_region(2) [OF bs this] assms show False by simp
  qed
qed

lemma reject_partition_range:
  assumes "p \<in> set (partitions d)"
    and "starting_lba p < first_usable_lba_of d \<or> ending_lba p > last_usable_lba_of d
         \<or> starting_lba p > ending_lba p"
  shows "invalid_descriptor (make_gpt d)"
proof -
  obtain e where "check_partitions (first_usable_lba_of d) (last_usable_lba_of d) (partitions d) = Some e"
    using check_partitions_range [OF assms] by blast
  moreover from this obtain message where "e = Invalid_Argument message"
    using check_partitions_invalid by blast
  ultimately show ?thesis
    by (simp add: make_gpt_def)
qed

lemma accept_whole_usable_region:
  assumes bs: "block_size d \<noteq> 0" "block_size d mod 512 = 0"
    and nb: "\<not> number_of_blocks d < gpt_blocks d + 1"
    and p: "partitions d = [p]" "starting_lba p = first_usable_lba_of d"
      "ending_lba p = last_usable_lba_of d"
    and fits: "3 * unat (block_size d) \<le> vector_max_size"
  shows "\<exists>out. make_gpt d = Inr out"
proof (rule make_gpt_returns [OF bs])
  show "partitions d \<noteq> []" and "length (partitions d) \<le> 4294967295"
    using p(1) by simp_all
  show "\<not> number_of_blocks d < gpt_blocks d + 1" by (rule nb)
  have "first_usable_lba_of d \<le> last_usable_lba_of d"
    by (rule usable_region(5) [OF bs nb])
  then show "check_partitions (first_usable_lba_of d) (last_usable_lba_of d) (partitions d) = None"
    using p by simp
  have "128 \<le> unat (block_size d)"
    using block_size_bounds(1) [OF bs] by simp
  then have "(128 + (unat (block_size d) - 1)) div unat (block_size d) = 1"
    by (simp add: div_nat_eqI)
  then show "(2 + (128 * length (partitions d) + (unat (block_size d) - 1))
             div unat (block_size d)) * unat (block_size d) \<le> vector_max_size"
    using fits p(1) by simp
qed

text \<open>
  What validation does, stated over the quantities that the code computes in 64-bit
  arithmetic (\<open>partition_entry_blocks\<close>, \<open>first_usable_lba_of\<close>, \<open>last_usable_lba_of\<close>):
  \<open>make_gpt\<close> ends with \<open>std::invalid_argument\<close> when the block size is zero or not a
  multiple of 512, when there is no partition or more than \<open>2 ^ 32 - 1\<close> of them, when
  \<open>number_of_blocks < 3 + 2 * partition_entry_blocks + 1\<close>, and when some partition starts
  before \<open>first_usable_lba_of\<close>, ends after \<open>last_usable_lba_of\<close> or starts after its
  end. A partition that fills the usable region passes, and alone it is accepted when the
  vector of three blocks is not above \<open>max_size()\<close>.
\<close>

theorem make_gpt_validation:
  "(block_size d = 0 \<or> block_size d mod 512 \<noteq> 0 \<longrightarrow> invalid_descriptor (make_gpt d))
 \<and> (block_size d = 511 \<or> block_size d = 513 \<longrightarrow> invalid_descriptor (make_gpt d))
 \<and> (partitions d = [] \<longrightarrow> invalid_descriptor (make_gpt d))
 \<and> (length (partitions d) > 2 ^ 32 - 1 \<longrightarrow> invalid_descriptor (make_gpt d))
 \<and> (unat (number_of_blocks d) < 3 + 2 * unat (partition_entry_blocks d) + 1
       \<longrightarrow> invalid_descriptor (make_gpt d))
 \<and> (unat (number_of_blocks d) = 3 + 2 * unat (partition_entry_blocks d)
       \<longrightarrow> invalid_descriptor (make_gpt d))
 \<and> (p \<in> set (partitions d) \<and>
      (starting_lba p < first_usable_lba_of d \<or> ending_lba p > last_usable_lba_of d
       \<or> starting_lba p > ending_lba p)
       \<longrightarrow> invalid_descriptor (make_gpt d))
 \<and> (\<not> (block_size d = 0 \<or> block_size d mod 512 \<noteq> 0)
      \<and> \<not> number_of_blocks d < gpt_blocks d + 1
      \<and> starting_lba p = first_usable_lba_of d \<and> ending_lba p = last_usable_lba_of d
       \<longrightarrow> check_partitions (first_usable_lba_of d) (last_usable_lba_of d) [p] = None
         \<and> (partitions d = [p] \<and> 3 * unat (block_size d) \<le> vector_max_size
              \<longrightarrow> (\<exists>out. make_gpt d = Inr out)))"
proof (intro conjI impI)
  assume "block_size d = 0 \<or> block_size d mod 512 \<noteq> 0"
  then show "invalid_descriptor (make_gpt d)" by (rule reject_block_size)
next
  assume "block_size d = 511 \<or> block_size d = 513"
  moreover have "(511 :: 64 word) mod 512 \<noteq> 0" and "(513 :: 64 word) mod 512 \<noteq> 0"
    by simp_all
  ultimately have "block_size d = 0 \<or> block_size d mod 512 \<noteq> 0"
    by metis
  then show "invalid_descriptor (make_gpt d)" by (rule reject_block_size)
next
  assume "partitions d = []"
  then show "invalid_descriptor (make_gpt d)" by (rule reject_no_partitions)
next
  assume "length (partitions d) > 2 ^ 32 - 1"
  then have "length (partitions d) > 4294967295" by simp
  then show "invalid_descriptor (make_gpt d)" by (rule reject_too_many_partitions)
next
  assume "unat (number_of_blocks d) < 3 + 2 * unat (partition_entry_blocks d) + 1"
  then show "invalid_descriptor (make_gpt d)" by (rule reject_too_few_blocks)
next
  assume "unat (number_of_blocks d) = 3 + 2 * unat (partition_entry_blocks d)"
  then have "unat (number_of_blocks d) < 3 + 2 * unat (partition_entry_blocks d) + 1" by simp
  then show "invalid_descriptor (make_gpt d)" by (rule reject_too_few_blocks)
next
  assume "p \<in> set (partitions d) \<and>
      (starting_lba p < first_usable_lba_of d \<or> ending_lba p > last_usable_lba_of d
       \<or> starting_lba p > ending_lba p)"
  then show "invalid_descriptor (make_gpt d)"
    using reject_partition_range by blast
next
  assume a: "\<not> (block_size d = 0 \<or> block_size d mod 512 \<noteq> 0)
      \<and> \<not> number_of_blocks d < gpt_blocks d + 1
      \<and> starting_lba p = first_usable_lba_of d \<and> ending_lba p = last_usable_lba_of d"
  then have bs: "block_size d \<noteq> 0" "block_size d mod 512 = 0" by simp_all
  have "first_usable_lba_of d \<le> last_usable_lba_of d"
    using usable_region(5) [OF bs] a by blast
  then show "check_partitions (first_usable_lba_of d) (last_usable_lba_of d) [p] = None"
    using a by simp
next
  assume a: "\<not> (block_size d = 0 \<or> block_size d mod 512 \<noteq> 0)
      \<and> \<not> number_of_blocks d < gpt_blocks d + 1
      \<and> starting_lba p = first_usable_lba_of d \<and> ending_lba p = last_usable_lba_of d"
    and b: "partitions d = [p] \<and> 3 * unat (block_size d) \<le> vector_max_size"
  then have bs: "block_size d \<noteq> 0" "block_size d mod 512 = 0" by simp_all
  show "\<exists>out. make_gpt d = Inr out"
    using accept_whole_usable_region [OF bs] a b by blast
qed

theorem make_gpt_validation_witness:
  "invalid_descriptor (make_gpt (blank_disk 0 2048 [blank_partition 34 2014]))
 \<and> invalid_descriptor (make_gpt (blank_disk 511 2048 [blank_partition 34 2014]))
 \<and> invalid_descriptor (make_gpt (blank_disk 513 2048 [blank_partition 34 2014]))
 \<and> invalid_descriptor (make_gpt (blank_disk 512 2048 []))
 \<and> invalid_descriptor
      (make_gpt (blank_disk 512 2048 (replicate 4294967296 (blank_partition 34 34))))
 \<and> invalid_descriptor (make_gpt (blank_disk 512 4 [blank_partition 3 3]))
 \<and> invalid_descriptor (make_gpt (blank_disk 512 5 [blank_partition 3 3]))
 \<and> invalid_descriptor (make_gpt (blank_disk 512 2048 [blank_partition 2 2014]))
 \<and> invalid_descriptor (make_gpt (blank_disk 512 2048 [blank_partition 34 2046]))
 \<and> invalid_descriptor (make_gpt (blank_disk 512 2048 [blank_partition 200 100]))
 \<and> (\<exists>out. make_gpt (blank_disk 512 2048 [blank_partition 3 2045]) = Inr out)"
proof -
  note defs = blank_disk_def blank_partition_def partition_entry_blocks_def size_bytes_def
    gpt_blocks_def first_usable_lba_of_def last_usable_lba_of_def vector_max_size_def
  have "invalid_descriptor (make_gpt (blank_disk 0 2048 [blank_partition 34 2014]))"
    using make_gpt_validation [of "blank_disk 0 2048 [blank_partition 34 2014]"]
    by (simp add: defs)
  moreover have "invalid_descriptor (make_gpt (blank_disk 511 2048 [blank_partition 34 2014]))"
    using make_gpt_validation [of "blank_disk 511 2048 [blank_partition 34 2014]"]
    by (simp add: defs)
  moreover have "invalid_descriptor (make_gpt (blank_disk 513 2048 [blank_partition 34 2014]))"
    using make_gpt_validation [of "blank_disk 513 2048 [blank_partition 34 2014]"]
    by (simp add: defs)
  moreover have "invalid_descriptor (make_gpt (blank_disk 512 2048 []))"
    using make_gpt_validation [of "blank_disk 512 2048 []"]
    by (simp add: defs)
  moreover have "invalid_descriptor
      (make_gpt (blank_disk 512 2048 (replicate 4294967296 (blank_partition 34 34))))"
    using make_gpt_validation
      [of "blank_disk 512 2048 (replicate 4294967296 (blank_partition 34 34))"]
    by (simp add: blank_disk_def)
  moreover have "invalid_descriptor (make_gpt (blank_disk 512 4 [blank_partition 3 3]))"
    using make_gpt_validation [of "blank_disk 512 4 [blank_partition 3 3]"]
    by (simp add: defs)
  moreover have "invalid_descriptor (make_gpt (blank_disk 512 5 [blank_partition 3 3]))"
    using make_gpt_validation [of "blank_disk 512 5 [blank_partition 3 3]"]
    by (simp add: defs)
  moreover have "invalid_descriptor (make_gpt (blank_disk 512 2048 [blank_partition 2 2014]))"
    using make_gpt_validation
      [of "blank_disk 512 2048 [blank_partition 2 2014]" "blank_partition 2 2014"]
    by (simp add: defs)
  moreover have "invalid_descriptor (make_gpt (blank_disk 512 2048 [blank_partition 34 2046]))"
    using make_gpt_validation
      [of "blank_disk 512 2048 [blank_partition 34 2046]" "blank_partition 34 2046"]
    by (simp add: defs)
  moreover have "invalid_descriptor (make_gpt (blank_disk 512 2048 [blank_partition 200 100]))"
    using make_gpt_validation
      [of "blank_disk 512 2048 [blank_partition 200 100]" "blank_partition 200 100"]
    by (simp add: defs)
  moreover have "\<exists>out. make_gpt (blank_disk 512 2048 [blank_partition 3 2045]) = Inr out"
    using make_gpt_validation
      [of "blank_disk 512 2048 [blank_partition 3 2045]" "blank_partition 3 2045"]
    by (simp add: defs)
  ultimately show ?thesis by blast
qed

section \<open>The overlap check\<close>

lemmas example_defs = blank_disk_def blank_partition_def partition_entry_blocks_def
  size_bytes_def gpt_blocks_def first_usable_lba_of_def last_usable_lba_of_def
  vector_max_size_def

lemma nested_partitions_returns: "\<exists>out. make_gpt nested_partitions = Inr out"
  by (rule make_gpt_returns) (simp_all add: nested_partitions_def example_defs)

text \<open>
  Claim C3 at a descriptor whose second partition, blocks 150 to 200, lies inside its
  first, blocks 100 to 300: the overlap check compares only the ends of the earlier
  partition with the range of the later one, so nothing is thrown and the blobs are
  returned, although the two ranges are not disjoint.
\<close>

theorem nested_partitions_accepted:
  "(\<exists>out. make_gpt nested_partitions = Inr out)
   \<and> check_partitions (first_usable_lba_of nested_partitions)
        (last_usable_lba_of nested_partitions) (partitions nested_partitions) = None
   \<and> \<not> overlapping (partitions nested_partitions ! 0) [partitions nested_partitions ! 1]
   \<and> \<not> disjoint_ranges (partitions nested_partitions ! 0) (partitions nested_partitions ! 1)"
  using nested_partitions_returns
  by (simp add: nested_partitions_def example_defs disjoint_ranges_def)

section \<open>The size field of the protective MBR\<close>

lemma mbr_header_bytes_size_in_lba:
  "take 4 (drop 458 (gpt_protective_mbr_bytes (mbr_header d))) =
     le32 (if number_of_blocks d > 0xFFFFFFFF then 0xfffffff
           else ucast (number_of_blocks d - 1))"
  by (simp add: gpt_protective_mbr_bytes_def mbr_header_def array_of_exact
      partition_record_bytes_def)

lemma accepted_size_in_lba:
  assumes acc: "make_gpt d = Inr out"
  shows "take 4 (drop 458 (header out)) =
     le32 (if number_of_blocks d > 0xFFFFFFFF then 0xfffffff
           else ucast (number_of_blocks d - 1))"
proof -
  have "take 4 (drop 458 (take 512 (header out))) =
     le32 (if number_of_blocks d > 0xFFFFFFFF then 0xfffffff
           else ucast (number_of_blocks d - 1))"
    by (simp only: accepted_header(2) [OF acc] mbr_header_bytes_size_in_lba)
  then show ?thesis by (simp add: drop_take)
qed

lemma disk_of_2_to_32_blocks_returns: "\<exists>out. make_gpt disk_of_2_to_32_blocks = Inr out"
  by (rule make_gpt_returns) (simp_all add: disk_of_2_to_32_blocks_def example_defs)

text \<open>
  Claim C4 at a disk of \<open>2 ^ 32\<close> blocks: \<open>number_of_blocks - 1 = 0xFFFFFFFF\<close> fits in 32
  bits, but the guard compares \<open>number_of_blocks\<close> itself with \<open>0xFFFFFFFF\<close>, so the size
  written into the first partition record, at bytes 458 to 461 of the header blob, is
  \<open>0x0FFFFFFF\<close>.
\<close>

theorem size_in_lba_at_2_to_32_blocks:
  "(\<exists>out. make_gpt disk_of_2_to_32_blocks = Inr out
       \<and> take 4 (drop 458 (header out)) = le32 0x0FFFFFFF
       \<and> take 4 (drop 458 (header out)) = [0xFF, 0xFF, 0xFF, 0x0F])
   \<and> size_in_lba (partition_record (mbr_header disk_of_2_to_32_blocks) ! 0) = 0x0FFFFFFF
   \<and> number_of_blocks disk_of_2_to_32_blocks - 1 = 0xFFFFFFFF
   \<and> unat (number_of_blocks disk_of_2_to_32_blocks - 1) \<le> 2 ^ 32 - 1"
proof -
  obtain out where acc: "make_gpt disk_of_2_to_32_blocks = Inr out"
    using disk_of_2_to_32_blocks_returns by blast
  have nb: "number_of_blocks disk_of_2_to_32_blocks = 4294967296"
    by (simp add: disk_of_2_to_32_blocks_def blank_disk_def)
  have "take 4 (drop 458 (header out)) = le32 0x0FFFFFFF"
    using accepted_size_in_lba [OF acc] by (simp add: nb)
  moreover have "le32 0x0FFFFFFF = [0xFF, 0xFF, 0xFF, 0x0F]"
    by (simp add: le32_def)
  moreover have "size_in_lba (partition_record (mbr_header disk_of_2_to_32_blocks) ! 0) = 0x0FFFFFFF"
    by (simp add: mbr_header_def nb)
  ultimately show ?thesis
    using acc by (simp add: nb)
qed

section \<open>The footer blob when the partition array takes more than one block\<close>

lemma five_partitions_quantities:
  "block_size five_partitions = 512" "unat (block_size five_partitions) = 512"
  "length (partitions five_partitions) = 5"
  "partition_entry_blocks five_partitions = 2" "unat (partition_entry_blocks five_partitions) = 2"
  by (simp_all add: five_partitions_def example_defs)

lemma replicate_8: "replicate 8 x = [x, x, x, x, x, x, x, x]"
  by (simp add: numeral_eq_Suc)

lemma EFI_PART_not_zero: "ascii ''EFI PART'' \<noteq> replicate 8 0"
  by (simp add: ascii_EFI_PART replicate_8)

lemma five_partitions_returns: "\<exists>out. make_gpt five_partitions = Inr out"
  by (rule make_gpt_returns) (simp_all add: five_partitions_def example_defs)

lemma five_partitions_span:
  "length (partition_span five_partitions) = 640"
  "take 8 (drop 512 (partition_span five_partitions)) = replicate 8 0"
  by (simp_all add: five_partitions_def blank_disk_def partition_span_def)
    (simp add: gpt_partition_entry_bytes_def blank_partition_def zero_guid_def array_of_def)

lemma second_gpt_header_bytes_signature:
  "take 8 (gpt_header_bytes (second_gpt_header d)) = ascii ''EFI PART''"
  by (simp add: gpt_header_bytes_signature second_gpt_header_fields(1) array_of_exact ascii_def)

lemma five_partitions_footer:
  assumes acc: "make_gpt five_partitions = Inr out"
  shows "length (footer out) = 1536"
    and "take 92 (drop 512 (footer out)) = gpt_header_bytes (second_gpt_header five_partitions)"
    and "take 8 (drop 512 (footer out)) = ascii ''EFI PART''"
    and "take 512 (footer out) = take 512 (partition_span five_partitions)"
    and "drop 1024 (footer out) = replicate 512 0"
proof -
  note f = accepted_footer [OF acc]
  define f1 where "f1 = overwrite (replicate 1536 0) 0 (partition_span five_partitions)"
  have ftr: "footer out = overwrite f1 512 (gpt_header_bytes (second_gpt_header five_partitions))"
    using f(2) by (simp add: f1_def five_partitions_quantities)
  have l1: "length f1 = 1536"
    by (simp add: f1_def length_overwrite five_partitions_quantities)
  show "length (footer out) = 1536"
    using f(1) by (simp add: five_partitions_quantities)
  show h: "take 92 (drop 512 (footer out)) = gpt_header_bytes (second_gpt_header five_partitions)"
    using f(3) by (simp add: five_partitions_quantities)
  have "take 8 (take 92 (drop 512 (footer out))) = ascii ''EFI PART''"
    by (simp only: h second_gpt_header_bytes_signature)
  then show "take 8 (drop 512 (footer out)) = ascii ''EFI PART''"
    by simp
  have "take 512 (drop 0 (footer out)) = take 512 (drop 0 f1)"
    unfolding ftr by (rule overwrite_read_before) (simp_all add: l1)
  also have "\<dots> = take 512 (partition_span five_partitions)"
    by (simp add: f1_def overwrite_def five_partitions_quantities)
  finally show "take 512 (footer out) = take 512 (partition_span five_partitions)"
    by simp
  have "take 512 (drop 1024 (footer out)) = take 512 (drop 1024 f1)"
    unfolding ftr by (rule overwrite_read_after) (simp_all add: l1)
  also have "\<dots> = take 512 (drop 1024 (replicate 1536 0))"
    unfolding f1_def by (rule overwrite_read_after) (simp_all add: five_partitions_quantities)
  also have "\<dots> = replicate 512 0"
    by simp
  finally show "drop 1024 (footer out) = replicate 512 0"
    using \<open>length (footer out) = 1536\<close> by simp
qed

text \<open>
  Claim C1 at five partitions. The backup partition array is two blocks long, so the
  backup header belongs at offset \<open>partition_entry_blocks * block_size = 1024\<close> of the
  1536-byte footer blob. The last \<open>memcpy\<close> writes it at \<open>1 * block_size = 512\<close>: the
  block at offset 1024 stays zero, and the header lies over bytes 512 to 603 of the array.
\<close>

theorem backup_header_in_second_block:
  "\<exists>out. make_gpt five_partitions = Inr out
     \<and> unat (partition_entry_blocks five_partitions) * unat (block_size five_partitions) = 1024
     \<and> length (footer out) = 1536
     \<and> drop 1024 (footer out) = replicate 512 0
     \<and> take 92 (drop 1024 (footer out)) \<noteq> gpt_header_bytes (second_gpt_header five_partitions)
     \<and> take 92 (drop 512 (footer out)) = gpt_header_bytes (second_gpt_header five_partitions)
     \<and> take 8 (drop 512 (footer out)) = ascii ''EFI PART''"
proof -
  obtain out where acc: "make_gpt five_partitions = Inr out"
    using five_partitions_returns by blast
  note f = five_partitions_footer [OF acc]
  have "take 8 (take 92 (drop 1024 (footer out))) = replicate 8 0"
    by (simp add: f(5))
  moreover have "take 8 (gpt_header_bytes (second_gpt_header five_partitions)) \<noteq> replicate 8 0"
    by (simp only: second_gpt_header_bytes_signature EFI_PART_not_zero not_False_eq_True)
  ultimately have "take 92 (drop 1024 (footer out)) \<noteq> gpt_header_bytes (second_gpt_header five_partitions)"
    by metis
  with acc f show ?thesis
    by (simp add: five_partitions_quantities)
qed

text \<open>
  Claim C2 at five partitions. The header blob holds the 640 bytes of the partition array
  at offset 1024. The footer blob starts with the same bytes only up to offset 512: from
  there on the backup header has been copied over the fifth entry, so that the footer has
  \<open>EFI PART\<close> where the array has the zero type GUID of that entry.
\<close>

theorem backup_array_overwritten:
  "\<exists>out. make_gpt five_partitions = Inr out
     \<and> take 640 (drop 1024 (header out)) = partition_span five_partitions
     \<and> take 640 (footer out) \<noteq> take 640 (drop 1024 (header out))
     \<and> take 8 (drop 512 (footer out)) = ascii ''EFI PART''
     \<and> take 8 (drop 1536 (header out)) = replicate 8 0"
proof -
  obtain out where acc: "make_gpt five_partitions = Inr out"
    using five_partitions_returns by blast
  note f = five_partitions_footer [OF acc]
  have h: "take 640 (drop 1024 (header out)) = partition_span five_partitions"
    using accepted_header(4) [OF acc] by (simp add: five_partitions_quantities)
  have "take 8 (drop 512 (take 640 (drop 1024 (header out)))) = replicate 8 0"
    by (simp only: h five_partitions_span)
  then have z: "take 8 (drop 1536 (header out)) = replicate 8 0"
    by (simp add: drop_take)
  have e: "take 8 (drop 512 (take 640 (footer out))) = ascii ''EFI PART''"
    using f(3) by (simp add: drop_take)
  from e EFI_PART_not_zero have "take 8 (drop 512 (take 640 (footer out)))
                 \<noteq> take 8 (drop 512 (partition_span five_partitions))"
    by (simp only: five_partitions_span) simp
  then have "take 640 (footer out) \<noteq> partition_span five_partitions"
    by metis
  with acc h z f(3) show ?thesis
    by simp
qed

section \<open>The ceiling at a block size close to \<open>2 ^ 64\<close>\<close>

text \<open>
  The division \<open>(size_bytes + (block_size - 1)) / block_size\<close> is the ceiling of
  \<open>128 * N / block_size\<close> as long as its numerator does not wrap around.
\<close>

lemma partition_entry_blocks_is_ceiling:
  assumes "block_size d \<noteq> 0" and "length (partitions d) \<le> 4294967295"
    and "128 * length (partitions d) + (unat (block_size d) - 1) < 2 ^ 64"
  shows "unat (partition_entry_blocks d) =
           (128 * length (partitions d) + (unat (block_size d) - 1)) div unat (block_size d)"
proof -
  have "unat (block_size d - 1) = unat (block_size d) - 1"
    using assms(1) by (simp add: unat_minus_one)
  then have "unat (size_bytes d + (block_size d - 1)) =
        (128 * length (partitions d) + (unat (block_size d) - 1)) mod 2 ^ 64"
    using assms(2) by (simp add: unat_word_ariths(1) unat_size_bytes)
  also have "\<dots> = 128 * length (partitions d) + (unat (block_size d) - 1)"
    using assms(3) by simp
  finally show ?thesis
    by (simp add: partition_entry_blocks_def unat_div)
qed

lemma wrapped_ceiling_quantities:
  "block_size wrapped_ceiling = 18446744073709551104"
  "block_size wrapped_ceiling mod 512 = 0"
  "number_of_blocks wrapped_ceiling = 8"
  "length (partitions wrapped_ceiling) = 5"
  "size_bytes wrapped_ceiling + (block_size wrapped_ceiling - 1) = 127"
  "partition_entry_blocks wrapped_ceiling = 0"
  "gpt_blocks wrapped_ceiling = 3"
  "first_usable_lba_of wrapped_ceiling = 2"
  "last_usable_lba_of wrapped_ceiling = 6"
  by (simp_all add: wrapped_ceiling_def example_defs)

lemma wrapped_ceiling_check:
  "check_partitions 2 6 (partitions wrapped_ceiling) = None"
  by (simp add: wrapped_ceiling_def blank_disk_def blank_partition_def)

lemma wrapped_ceiling_result: "make_gpt wrapped_ceiling = Inl Length_Error"
proof -
  have "unat ((2 + partition_entry_blocks wrapped_ceiling) * block_size wrapped_ceiling)
          = 18446744073709550592"
    by (simp add: wrapped_ceiling_quantities)
  then have "construct_buffers wrapped_ceiling = Inl Length_Error"
    by (simp add: construct_buffers_def new_vector_def vector_max_size_def)
  moreover have "partitions wrapped_ceiling \<noteq> []"
    using wrapped_ceiling_quantities(4) by auto
  ultimately show ?thesis
    by (simp add: make_gpt_def wrapped_ceiling_quantities wrapped_ceiling_check)
qed

text \<open>
  Claim C5 at a block size of \<open>2 ^ 64 - 512\<close>. The ceiling of \<open>640 / block_size\<close> is 1, so
  \<open>first_usable_lba\<close> is 3 and the partition that starts at block 2 is to be rejected with
  \<open>std::invalid_argument\<close>. In the code the sum \<open>size_bytes + (block_size - 1)\<close> wraps
  around to 127, \<open>partition_entry_blocks\<close> becomes 0 and \<open>first_usable_lba\<close> 2: every
  check passes, and the run ends in the \<open>std::length_error\<close> of the header vector
  instead.
\<close>

theorem ceiling_wraps_at_huge_block_size:
  "make_gpt wrapped_ceiling = Inl Length_Error
   \<and> \<not> invalid_descriptor (make_gpt wrapped_ceiling)
   \<and> 128 * length (partitions wrapped_ceiling) + (unat (block_size wrapped_ceiling) - 1)
        = 2 ^ 64 + 127
   \<and> (128 * length (partitions wrapped_ceiling) + (unat (block_size wrapped_ceiling) - 1))
        div unat (block_size wrapped_ceiling) = 1
   \<and> partition_entry_blocks wrapped_ceiling = 0
   \<and> first_usable_lba_of wrapped_ceiling = 2
   \<and> starting_lba (partitions wrapped_ceiling ! 0) = 2
   \<and> check_partitions (first_usable_lba_of wrapped_ceiling) (last_usable_lba_of wrapped_ceiling)
        (partitions wrapped_ceiling) = None"
proof -
  have "unat (block_size wrapped_ceiling) = 18446744073709551104"
    by (simp add: wrapped_ceiling_quantities)
  moreover have "starting_lba (partitions wrapped_ceiling ! 0) = 2"
    by (simp add: wrapped_ceiling_def blank_disk_def blank_partition_def)
  ultimately show ?thesis
    by (simp add: wrapped_ceiling_result wrapped_ceiling_quantities wrapped_ceiling_check
        invalid_descriptor_def)
qed

end
